theory Spec2Isabelle
  imports Main "HOL-Library.Word"
begin

section \<open>The exchange gateway of \<^verbatim>\<open>src/backend/main.py\<close>\<close>

text \<open>
  The service has two handlers, \<^verbatim>\<open>get_file\<close> (GET /get) and \<^verbatim>\<open>upload_file\<close>
  (POST /post), and two helpers, \<^verbatim>\<open>get_ssm_parameter\<close> and \<^verbatim>\<open>set_ssm_parameter\<close>.
  All durable state lives in two AWS services reached through boto3 clients. The
  embedding passes one explicit state through every call: the two stores, the
  record of which client calls raise \<^verbatim>\<open>ClientError\<close>, the chronological list of client
  calls made, and the local resources of the request (the local file system with its
  temporary directories and staged files, the background tasks, the number of times
  the uploaded file was closed). An exception that leaves a function is the \<open>Inl\<close>
  branch of its result. Calls to the logger have no effect on any value and are left
  out.
\<close>

subsection \<open>Configuration and data\<close>

type_synonym bytes = "8 word list"

text \<open>The module-level settings read from the environment (lines 14 to 19).\<close>

record config =
  S3_BUCKET_NAME :: string
  SSM_PARAMETER_NAME :: string
  SSM_FILENAME_PARAMETER_NAME :: string
  SSM_PASSWORD_PARAMETER_NAME :: string

definition LOCK_VALUE_UNLOCKED :: string where
  "LOCK_VALUE_UNLOCKED = ''unlocked''"

text \<open>
  The boto3 calls the module makes, with their arguments:
  \<^verbatim>\<open>ssm_client.get_parameter(Name, WithDecryption)\<close>,
  \<^verbatim>\<open>ssm_client.put_parameter(Name, Value, Type="String", Overwrite)\<close>,
  \<^verbatim>\<open>s3_client.download_file(Bucket, Key, Filename)\<close> and
  \<^verbatim>\<open>s3_client.upload_fileobj(Fileobj, Bucket, Key)\<close>.
\<close>

datatype api_call =
    GetParameter string bool
  | PutParameter string string bool
  | DownloadFile string string
  | UploadFileobj bytes string string

text \<open>
  The exceptions that occur: \<^verbatim>\<open>HTTPException(status_code, detail)\<close>, which the handlers
  raise, the \<^verbatim>\<open>ClientError\<close> of botocore with its error code, and \<^verbatim>\<open>OSError\<close> (with the
  name of the subclass raised), which comes from the local file system and which no
  handler catches.
\<close>

datatype exception =
    HTTPException nat string
  | ClientError string
  | OSError string

text \<open>
  A location in the local file system is the list of the names from the root down to
  it. A local path, as \<^verbatim>\<open>os.path.join\<close> builds it, is a path string still to be
  resolved together with the directory it is resolved from.
\<close>

type_synonym path = "string list"

type_synonym local_path = "path \<times> string"

text \<open>
  What a handler returns: \<^verbatim>\<open>FileResponse(path, filename, media_type)\<close> from the download,
  the dictionary \<^verbatim>\<open>{"message": ...}\<close> from the upload.
\<close>

datatype response =
    FileResponse local_path string string
  | Message string

text \<open>The only background task the module schedules is \<^verbatim>\<open>clean_temp_dir(temp_dir)\<close>.\<close>

datatype task = CleanTempDir path

text \<open>The \<^verbatim>\<open>UploadFile\<close> argument: its \<^verbatim>\<open>filename\<close> (which may be absent) and its content.\<close>

record upload =
  filename :: "string option"
  content :: bytes

record state =
  s3_client :: bool
  ssm_client :: bool
  ssm_parameters :: "string \<rightharpoonup> string"
  s3_objects :: "string \<times> string \<rightharpoonup> bytes"
  client_error :: "api_call \<Rightarrow> string option"
  api_calls :: "api_call list"
  local_dirs :: "path list"
  local_files :: "path \<rightharpoonup> bytes"
  os_error :: "path \<Rightarrow> string option"
  temp_names :: "path list"
  temp_dirs :: "path list"
  background_tasks :: "task list"
  file_closed :: nat

text \<open>
  \<open>s3_client\<close> and \<open>ssm_client\<close> say whether the module-level clients were created
  (they are \<^verbatim>\<open>None\<close> after \<^verbatim>\<open>NoCredentialsError\<close>, lines 36 to 42).
  \<open>client_error s c = Some code\<close> says that the call \<open>c\<close> raises \<^verbatim>\<open>ClientError\<close> with
  that error code in state \<open>s\<close>; no handler makes the same call twice.
  \<open>local_dirs\<close> lists directories that exist (their ancestors exist with them) and
  \<open>local_files\<close> holds the regular files. \<open>os_error s q = Some e\<close> says that creating or
  writing \<open>q\<close> fails with that \<^verbatim>\<open>OSError\<close> for a reason of the environment (no space, a
  name that is too long, no permission). \<open>temp_names\<close> are the names that \<^verbatim>\<open>mkdtemp\<close>
  tries, in order, and \<open>temp_dirs\<close> are the \<^verbatim>\<open>TemporaryDirectory\<close> objects that have not
  been cleaned up. Symbolic links, and the validation of the query parameters that
  FastAPI performs before a handler runs, are not modelled: a handler is modelled from
  its first statement, on arguments that passed validation.
\<close>

subsection \<open>The client calls\<close>

definition record_call :: "api_call \<Rightarrow> state \<Rightarrow> state" where
  "record_call c s = s\<lparr>api_calls := api_calls s @ [c]\<rparr>"

text \<open>
  \<^verbatim>\<open>ssm_client.get_parameter\<close>: the stored value, or the error code of the
  \<^verbatim>\<open>ClientError\<close> raised. A key that holds no value raises \<^verbatim>\<open>ParameterNotFound\<close>.
\<close>

definition get_parameter :: "string \<Rightarrow> bool \<Rightarrow> state \<Rightarrow> (string + string) \<times> state" where
  "get_parameter name with_decryption s =
     (case client_error s (GetParameter name with_decryption) of
        Some code \<Rightarrow> (Inl code, record_call (GetParameter name with_decryption) s)
      | None \<Rightarrow>
          (case ssm_parameters s name of
             None \<Rightarrow> (Inl ''ParameterNotFound'', record_call (GetParameter name with_decryption) s)
           | Some v \<Rightarrow> (Inr v, record_call (GetParameter name with_decryption) s)))"

text \<open>
  \<^verbatim>\<open>ssm_client.put_parameter\<close>: creates or overwrites the value; without \<^verbatim>\<open>Overwrite\<close>
  an existing key raises \<^verbatim>\<open>ParameterAlreadyExists\<close>.
\<close>

definition put_parameter :: "string \<Rightarrow> string \<Rightarrow> bool \<Rightarrow> state \<Rightarrow> (string + unit) \<times> state" where
  "put_parameter name v overwrite s =
     (case client_error s (PutParameter name v overwrite) of
        Some code \<Rightarrow> (Inl code, record_call (PutParameter name v overwrite) s)
      | None \<Rightarrow>
          if \<not> overwrite \<and> ssm_parameters s name \<noteq> None
          then (Inl ''ParameterAlreadyExists'', record_call (PutParameter name v overwrite) s)
          else (Inr (),
                record_call (PutParameter name v overwrite)
                  (s\<lparr>ssm_parameters := (ssm_parameters s)(name \<mapsto> v)\<rparr>)))"

text \<open>\<^verbatim>\<open>s3_client.upload_fileobj\<close>: stores the bytes under the key, replacing any object there.\<close>

definition upload_fileobj :: "bytes \<Rightarrow> string \<Rightarrow> string \<Rightarrow> state \<Rightarrow> (string + unit) \<times> state" where
  "upload_fileobj b bucket key s =
     (case client_error s (UploadFileobj b bucket key) of
        Some code \<Rightarrow> (Inl code, record_call (UploadFileobj b bucket key) s)
      | None \<Rightarrow>
          (Inr (),
           record_call (UploadFileobj b bucket key)
             (s\<lparr>s3_objects := (s3_objects s)((bucket, key) \<mapsto> b)\<rparr>)))"

subsection \<open>The local file system\<close>

text \<open>A directory exists when it is the root, is listed, or is an ancestor of a listed one.\<close>

definition is_dir :: "state \<Rightarrow> path \<Rightarrow> bool" where
  "is_dir s q = (q = [] \<or> list_ex (\<lambda>d. take (length q) d = q) (local_dirs s))"

text \<open>\<open>under d q\<close>: the location \<open>q\<close> is \<open>d\<close> itself or lies below it.\<close>

definition under :: "path \<Rightarrow> path \<Rightarrow> bool" where
  "under d q = (take (length d) q = d)"

text \<open>The names between the slashes of a path string.\<close>

fun split_slash :: "string \<Rightarrow> string list" where
  "split_slash [] = [[]]"
| "split_slash (c # cs) =
     (if c = CHR ''/'' then [] # split_slash cs
      else (case split_slash cs of
              [] \<Rightarrow> [[c]]
            | x # xs \<Rightarrow> (c # x) # xs))"

text \<open>
  Path resolution as the operating system does it, name by name from the directory
  \<open>cur\<close>: an empty name and \<^verbatim>\<open>.\<close> stay, \<^verbatim>\<open>..\<close> goes up, any other name goes down, and
  every location passed through has to be a directory. \<open>None\<close> is the failure of the
  lookup (\<^verbatim>\<open>FileNotFoundError\<close>, \<^verbatim>\<open>NotADirectoryError\<close>).
\<close>

fun resolve :: "state \<Rightarrow> path \<Rightarrow> string list \<Rightarrow> path option" where
  "resolve s cur [] = Some cur"
| "resolve s cur (c # cs) =
     (if \<not> is_dir s cur then None
      else if c = [] \<or> c = ''.'' then resolve s cur cs
      else if c = ''..'' then resolve s (butlast cur) cs
      else resolve s (cur @ [c]) cs)"

text \<open>
  \<^verbatim>\<open>os.path.join(temp_dir.name, filename)\<close>, where \<open>d\<close> is the location of the temporary
  directory: a filename that starts with a slash discards the directory.
\<close>

definition os_path_join :: "path \<Rightarrow> string \<Rightarrow> local_path" where
  "os_path_join d name = (if name \<noteq> [] \<and> hd name = CHR ''/'' then ([], name) else (d, name))"

definition locate :: "state \<Rightarrow> local_path \<Rightarrow> path option" where
  "locate s p = resolve s (fst p) (split_slash (snd p))"

text \<open>Creating or replacing the regular file at a local path.\<close>

definition write_file :: "local_path \<Rightarrow> bytes \<Rightarrow> state \<Rightarrow> (exception + unit) \<times> state" where
  "write_file p b s =
     (case locate s p of
        None \<Rightarrow> (Inl (OSError ''FileNotFoundError''), s)
      | Some q \<Rightarrow>
          if is_dir s q then (Inl (OSError ''IsADirectoryError''), s)
          else (case os_error s q of
                  Some e \<Rightarrow> (Inl (OSError e), s)
                | None \<Rightarrow> (Inr (), s\<lparr>local_files := (local_files s)(q \<mapsto> b)\<rparr>)))"

text \<open>
  \<^verbatim>\<open>s3_client.download_file\<close>: an absent key raises \<^verbatim>\<open>ClientError\<close> with code \<^verbatim>\<open>404\<close>;
  otherwise the object is written to the local path, and a failure of that write
  leaves the call as the \<^verbatim>\<open>OSError\<close> it is.
\<close>

definition download_file :: "string \<Rightarrow> string \<Rightarrow> local_path \<Rightarrow> state \<Rightarrow> (exception + unit) \<times> state" where
  "download_file bucket key local s =
     (case client_error s (DownloadFile bucket key) of
        Some code \<Rightarrow> (Inl (ClientError code), record_call (DownloadFile bucket key) s)
      | None \<Rightarrow>
          (case s3_objects s (bucket, key) of
             None \<Rightarrow> (Inl (ClientError ''404''), record_call (DownloadFile bucket key) s)
           | Some b \<Rightarrow> write_file local b (record_call (DownloadFile bucket key) s)))"

subsection \<open>Local resources\<close>

text \<open>
  \<^verbatim>\<open>tempfile.TemporaryDirectory()\<close>: \<^verbatim>\<open>mkdtemp\<close> takes the first of its names at which
  nothing exists and creates the directory there, which is therefore new and empty. It
  raises when every name is taken, when the parent directory is missing, or when the
  environment refuses.
\<close>

definition TemporaryDirectory :: "state \<Rightarrow> (exception + path) \<times> state" where
  "TemporaryDirectory s =
     (case find (\<lambda>d. \<not> is_dir s d \<and> local_files s d = None) (temp_names s) of
        None \<Rightarrow> (Inl (OSError ''FileExistsError''), s)
      | Some d \<Rightarrow>
          if \<not> is_dir s (butlast d) then (Inl (OSError ''FileNotFoundError''), s)
          else (case os_error s d of
                  Some e \<Rightarrow> (Inl (OSError e), s)
                | None \<Rightarrow>
                    (Inr d, s\<lparr>local_dirs := d # local_dirs s, temp_dirs := temp_dirs s @ [d]\<rparr>)))"

definition add_task :: "task \<Rightarrow> state \<Rightarrow> state" where
  "add_task t s = s\<lparr>background_tasks := background_tasks s @ [t]\<rparr>"

text \<open>
  Lines 182 and 183: \<^verbatim>\<open>temp_dir.cleanup()\<close> removes the directory and everything below
  it, and nothing else.
\<close>

definition clean_temp_dir :: "path \<Rightarrow> state \<Rightarrow> state" where
  "clean_temp_dir d s =
     s\<lparr>local_dirs := filter (\<lambda>q. \<not> under d q) (local_dirs s),
       local_files := (\<lambda>q. if under d q then None else local_files s q),
       temp_dirs := removeAll d (temp_dirs s)\<rparr>"

fun run_task :: "task \<Rightarrow> state \<Rightarrow> state" where
  "run_task (CleanTempDir d) s = clean_temp_dir d s"

definition run_background_tasks :: "state \<Rightarrow> state" where
  "run_background_tasks s = (fold run_task (background_tasks s) s)\<lparr>background_tasks := []\<rparr>"

text \<open>
  A \<^verbatim>\<open>TemporaryDirectory\<close> object that is no longer referenced cleans up through its
  finalizer, if it has not been cleaned up before.
\<close>

definition finalize_temp_dirs :: "state \<Rightarrow> state" where
  "finalize_temp_dirs s = fold clean_temp_dir (temp_dirs s) s"

text \<open>
  What happens once a handler is done. FastAPI attaches the background tasks to the
  response a handler returns and runs them after the response has been sent; the tasks
  of a handler that raised are never run. After that nothing refers to the objects of
  the request any more.
\<close>

definition finish_request :: "(exception + response) \<times> state \<Rightarrow> state" where
  "finish_request rs =
     finalize_temp_dirs
       (case fst rs of
          Inr resp \<Rightarrow> run_background_tasks (snd rs)
        | Inl e \<Rightarrow> (snd rs)\<lparr>background_tasks := []\<rparr>)"

text \<open>\<^verbatim>\<open>await file.close()\<close>.\<close>

definition close_file :: "state \<Rightarrow> state" where
  "close_file s = s\<lparr>file_closed := Suc (file_closed s)\<rparr>"

subsection \<open>String formatting\<close>

text \<open>An f-string prints \<^verbatim>\<open>None\<close> as the four letters.\<close>

fun format_value :: "string option \<Rightarrow> string" where
  "format_value None = ''None''"
| "format_value (Some v) = v"

text \<open>The pattern \<^verbatim>\<open>'{x}'\<close> of the f-strings: the value between two apostrophes.\<close>

definition quoted :: "string \<Rightarrow> string" where
  "quoted x = [CHR 0x27] @ x @ [CHR 0x27]"

subsection \<open>Helper functions (lines 49 to 87)\<close>

definition get_ssm_parameter ::
  "string \<Rightarrow> bool \<Rightarrow> state \<Rightarrow> (exception + string option) \<times> state" where
  "get_ssm_parameter parameter_name with_decryption s =
     (if \<not> ssm_client s then (Inr None, s)
      else
        (case get_parameter parameter_name with_decryption s of
           (Inr v, s') \<Rightarrow> (Inr (Some v), s')
         | (Inl code, s') \<Rightarrow>
             if code = ''ParameterNotFound'' then (Inr None, s')
             else (Inl (HTTPException 500
                     (''Error communicating with AWS SSM to get '' @ parameter_name)), s')))"

definition set_ssm_parameter ::
  "string \<Rightarrow> string \<Rightarrow> bool \<Rightarrow> state \<Rightarrow> (exception + bool) \<times> state" where
  "set_ssm_parameter parameter_name v overwrite s =
     (if \<not> ssm_client s then (Inr False, s)
      else
        (case put_parameter parameter_name v overwrite s of
           (Inr u, s') \<Rightarrow> (Inr True, s')
         | (Inl code, s') \<Rightarrow>
             if code = ''ParameterAlreadyExists'' \<and> \<not> overwrite then (Inr True, s')
             else (Inl (HTTPException 500
                     (''Error communicating with AWS SSM to set '' @ parameter_name)), s')))"

subsection \<open>GET /get (lines 91 to 179)\<close>

definition get_file ::
  "config \<Rightarrow> string \<Rightarrow> string \<Rightarrow> state \<Rightarrow> (exception + response) \<times> state" where
  "get_file cfg who_are_you password s =
     (if \<not> s3_client s \<or> \<not> ssm_client s
      then (Inl (HTTPException 503 ''AWS service client not available.''), s)
      else
        (case get_ssm_parameter (SSM_PASSWORD_PARAMETER_NAME cfg) True s of
           (Inl e, s1) \<Rightarrow> (Inl e, s1)
         | (Inr app_password, s1) \<Rightarrow>
             if app_password \<noteq> Some password
             then (Inl (HTTPException 403 ''Provided password not valid''), s1)
             else
               (case get_ssm_parameter (SSM_PARAMETER_NAME cfg) False s1 of
                  (Inl e, s2) \<Rightarrow> (Inl e, s2)
                | (Inr current_lock_value, s2) \<Rightarrow>
                    if current_lock_value = Some LOCK_VALUE_UNLOCKED then
                      (case get_ssm_parameter (SSM_FILENAME_PARAMETER_NAME cfg) False s2 of
                         (Inl e, s3) \<Rightarrow> (Inl e, s3)
                       | (Inr None, s3) \<Rightarrow>
                           (Inl (HTTPException 404 ''No valid save filename found to download.''), s3)
                       | (Inr (Some filename_to_download), s3) \<Rightarrow>
                           if filename_to_download = [] \<or> filename_to_download = ''init''
                           then (Inl (HTTPException 404
                                   ''No valid save filename found to download.''), s3)
                           else
                             (case TemporaryDirectory s3 of
                                (Inl e, s4) \<Rightarrow> (Inl e, s4)
                              | (Inr temp_dir, s4) \<Rightarrow>
                                  (case download_file (S3_BUCKET_NAME cfg) filename_to_download
                                          (os_path_join temp_dir filename_to_download) s4 of
                                     (Inl (ClientError code), s5) \<Rightarrow>
                                       if code = ''NoSuchKey'' \<or> code = ''404''
                                       then (Inl (HTTPException 404
                                               (''Save file '' @ quoted filename_to_download
                                                  @ '' not found in S3.'')),
                                             add_task (CleanTempDir temp_dir) s5)
                                       else (Inl (HTTPException 500
                                               ''Error downloading file from S3.''),
                                             add_task (CleanTempDir temp_dir) s5)
                                   | (Inl (OSError e), s5) \<Rightarrow> (Inl (OSError e), s5)
                                   | (Inl (HTTPException status detail), s5) \<Rightarrow>
                                       (Inl (HTTPException status detail), s5)
                                   | (Inr u, s5) \<Rightarrow>
                                       (case set_ssm_parameter (SSM_PARAMETER_NAME cfg)
                                               who_are_you True s5 of
                                          (Inl e, s6) \<Rightarrow> (Inl e, s6)
                                        | (Inr ok, s6) \<Rightarrow>
                                            if ok
                                            then (Inr (FileResponse
                                                    (os_path_join temp_dir filename_to_download)
                                                    filename_to_download
                                                    ''application/octet-stream''),
                                                  add_task (CleanTempDir temp_dir) s6)
                                            else (Inl (HTTPException 500
                                                    ''Failed to update API lock after download.''),
                                                  add_task (CleanTempDir temp_dir) s6)))))
                    else
                      (Inl (HTTPException 409
                         (''Cannot download as save is locked by ''
                            @ format_value current_lock_value)), s2))))"

text \<open>
  Only \<^verbatim>\<open>ClientError\<close> is caught at line 153, so every other exception leaves the
  handler as it is.

  The body a \<^verbatim>\<open>FileResponse\<close> sends is the content of the file at its path when the
  handler returns; the background tasks run after the response has been sent.
\<close>

fun response_body :: "state \<Rightarrow> response \<Rightarrow> bytes option" where
  "response_body s (FileResponse p name media) =
     (case locate s p of None \<Rightarrow> None | Some q \<Rightarrow> local_files s q)"
| "response_body s (Message m) = None"

subsection \<open>POST /post (lines 186 to 263)\<close>

definition upload_file ::
  "config \<Rightarrow> string \<Rightarrow> string \<Rightarrow> upload \<Rightarrow> state \<Rightarrow> (exception + response) \<times> state" where
  "upload_file cfg who_are_you password file s =
     (if \<not> s3_client s \<or> \<not> ssm_client s
      then (Inl (HTTPException 503 ''AWS service client not available.''), s)
      else
        (case get_ssm_parameter (SSM_PASSWORD_PARAMETER_NAME cfg) True s of
           (Inl e, s1) \<Rightarrow> (Inl e, s1)
         | (Inr app_password, s1) \<Rightarrow>
             if app_password \<noteq> Some password
             then (Inl (HTTPException 403 ''Provided password not valid''), s1)
             else
               (case filename file of
                  None \<Rightarrow> (Inl (HTTPException 400 ''Filename cannot be empty.''), s1)
                | Some name \<Rightarrow>
                    if name = []
                    then (Inl (HTTPException 400 ''Filename cannot be empty.''), s1)
                    else
                      (case get_ssm_parameter (SSM_PARAMETER_NAME cfg) False s1 of
                         (Inl e, s2) \<Rightarrow> (Inl e, s2)
                       | (Inr current_lock_value, s2) \<Rightarrow>
                           if current_lock_value \<noteq> Some LOCK_VALUE_UNLOCKED then
                             (case
                                (case upload_fileobj (content file) (S3_BUCKET_NAME cfg) name s2 of
                                   (Inl code, s3) \<Rightarrow>
                                     (Inl (HTTPException 500 ''Error uploading file to S3.''), s3)
                                 | (Inr u, s3) \<Rightarrow>
                                     (case set_ssm_parameter (SSM_FILENAME_PARAMETER_NAME cfg)
                                             name True s3 of
                                        (Inl e, s4) \<Rightarrow> (Inl e, s4)
                                      | (Inr ok, s4) \<Rightarrow>
                                          if \<not> ok
                                          then (Inl (HTTPException 500
                                                  ''File uploaded but failed to update tracking parameter.''),
                                                s4)
                                          else
                                            (case set_ssm_parameter (SSM_PARAMETER_NAME cfg)
                                                    LOCK_VALUE_UNLOCKED True s4 of
                                               (Inl e, s5) \<Rightarrow> (Inl e, s5)
                                             | (Inr ok', s5) \<Rightarrow>
                                                 (Inr (Message
                                                    (''File '' @ quoted name
                                                       @ '' uploaded successfully by ''
                                                       @ quoted who_are_you @ ''.'')),
                                                  s5)))) of
                                (r, s6) \<Rightarrow> (r, close_file s6))
                           else
                             (Inl (HTTPException 409
                                ''Cannot upload: API lock is 'unlocked', indicating a file may already be present and downloadable.''),
                              close_file s2)))))"

subsection \<open>A concrete deployment\<close>

text \<open>
  The scenario of the specification: the keys \<^verbatim>\<open>lock\<close>, \<^verbatim>\<open>filename\<close> and \<^verbatim>\<open>password\<close>
  in the parameter store, one bucket, both clients created. Locally there are the
  directories \<^verbatim>\<open>/tmp\<close> and \<^verbatim>\<open>/srv\<close> and no file, and \<^verbatim>\<open>mkdtemp\<close> will try the name
  \<^verbatim>\<open>/tmp/tmpk3v9x2ab\<close>.
\<close>

definition example_config :: config where
  "example_config =
     \<lparr>S3_BUCKET_NAME = ''saves'', SSM_PARAMETER_NAME = ''lock'',
      SSM_FILENAME_PARAMETER_NAME = ''filename'', SSM_PASSWORD_PARAMETER_NAME = ''password''\<rparr>"

definition gateway ::
  "(string \<rightharpoonup> string) \<Rightarrow> (string \<times> string \<rightharpoonup> bytes) \<Rightarrow> (api_call \<Rightarrow> string option) \<Rightarrow> state" where
  "gateway params objects errors =
     \<lparr>s3_client = True, ssm_client = True, ssm_parameters = params, s3_objects = objects,
      client_error = errors, api_calls = [], local_dirs = [[''tmp''], [''srv'']],
      local_files = Map.empty, os_error = (\<lambda>q. None),
      temp_names = [[''tmp'', ''tmpk3v9x2ab'']], temp_dirs = [],
      background_tasks = [], file_closed = 0\<rparr>"

definition no_errors :: "api_call \<Rightarrow> string option" where
  "no_errors c = None"

text \<open>The bytes of \<^verbatim>\<open>a,b,c\<close> and of \<^verbatim>\<open>x,y,z\<close>.\<close>

definition abc :: bytes where
  "abc = [97, 44, 98, 44, 99]"

definition xyz :: bytes where
  "xyz = [120, 44, 121, 44, 122]"

definition unlocked_params :: "string \<rightharpoonup> string" where
  "unlocked_params =
     [''lock'' \<mapsto> ''unlocked'', ''filename'' \<mapsto> ''report.csv'', ''password'' \<mapsto> ''secret'']"

definition locked_params :: "string \<rightharpoonup> string" where
  "locked_params =
     [''lock'' \<mapsto> ''alice'', ''filename'' \<mapsto> ''report.csv'', ''password'' \<mapsto> ''secret'']"

definition report_objects :: "string \<times> string \<rightharpoonup> bytes" where
  "report_objects = [(''saves'', ''report.csv'') \<mapsto> abc]"

definition init_params :: "string \<rightharpoonup> string" where
  "init_params =
     [''lock'' \<mapsto> ''unlocked'', ''filename'' \<mapsto> ''init'', ''password'' \<mapsto> ''secret'']"

definition no_lock_params :: "string \<rightharpoonup> string" where
  "no_lock_params = [''filename'' \<mapsto> ''report.csv'', ''password'' \<mapsto> ''secret'']"

definition no_password_params :: "string \<rightharpoonup> string" where
  "no_password_params = [''lock'' \<mapsto> ''unlocked'', ''filename'' \<mapsto> ''report.csv'']"

definition report_xyz :: upload where
  "report_xyz = \<lparr>filename = Some ''report.csv'', content = xyz\<rparr>"

definition init_xyz :: upload where
  "init_xyz = \<lparr>filename = Some ''init'', content = xyz\<rparr>"

text \<open>A filename with a directory part, and an absolute one.\<close>

definition nested_xyz :: upload where
  "nested_xyz = \<lparr>filename = Some ''dir/report.csv'', content = xyz\<rparr>"

definition srv_xyz :: upload where
  "srv_xyz = \<lparr>filename = Some ''/srv/report.csv'', content = xyz\<rparr>"

definition srv_params :: "string \<rightharpoonup> string" where
  "srv_params =
     [''lock'' \<mapsto> ''unlocked'', ''filename'' \<mapsto> ''/srv/report.csv'',
      ''password'' \<mapsto> ''secret'']"

definition srv_objects :: "string \<times> string \<rightharpoonup> bytes" where
  "srv_objects = [(''saves'', ''/srv/report.csv'') \<mapsto> abc]"

text \<open>Deployments in which exactly one \<^verbatim>\<open>put_parameter\<close> call raises \<^verbatim>\<open>ClientError\<close>.\<close>

definition tracking_write_fails :: "api_call \<Rightarrow> string option" where
  "tracking_write_fails c =
     (if c = PutParameter ''filename'' ''report.csv'' True
      then Some ''ThrottlingException'' else None)"

definition lock_reset_fails :: "api_call \<Rightarrow> string option" where
  "lock_reset_fails c =
     (if c = PutParameter ''lock'' ''unlocked'' True then Some ''InternalServerError'' else None)"

definition lock_write_fails :: "api_call \<Rightarrow> string option" where
  "lock_write_fails c =
     (if c = PutParameter ''lock'' ''alice'' True then Some ''InternalServerError'' else None)"

section \<open>Basic facts\<close>

lemmas example_defs =
  example_config_def gateway_def no_errors_def unlocked_params_def locked_params_def
  report_objects_def LOCK_VALUE_UNLOCKED_def init_params_def no_lock_params_def
  no_password_params_def report_xyz_def init_xyz_def tracking_write_fails_def
  lock_reset_fails_def lock_write_fails_def nested_xyz_def srv_params_def
  srv_objects_def srv_xyz_def

lemmas run_defs =
  get_ssm_parameter_def get_parameter_def set_ssm_parameter_def put_parameter_def
  download_file_def upload_fileobj_def TemporaryDirectory_def add_task_def record_call_def
  close_file_def quoted_def write_file_def locate_def os_path_join_def is_dir_def under_def

subsection \<open>Recording a call and closing the file touch nothing else\<close>

lemma record_call_fields:
  "s3_client (record_call c s) = s3_client s"
  "ssm_client (record_call c s) = ssm_client s"
  "ssm_parameters (record_call c s) = ssm_parameters s"
  "s3_objects (record_call c s) = s3_objects s"
  "client_error (record_call c s) = client_error s"
  "api_calls (record_call c s) = api_calls s @ [c]"
  "local_dirs (record_call c s) = local_dirs s"
  "local_files (record_call c s) = local_files s"
  "os_error (record_call c s) = os_error s"
  "temp_names (record_call c s) = temp_names s"
  "temp_dirs (record_call c s) = temp_dirs s"
  "background_tasks (record_call c s) = background_tasks s"
  "file_closed (record_call c s) = file_closed s"
  by (simp_all add: record_call_def)

lemma close_file_fields:
  "s3_client (close_file s) = s3_client s"
  "ssm_client (close_file s) = ssm_client s"
  "ssm_parameters (close_file s) = ssm_parameters s"
  "s3_objects (close_file s) = s3_objects s"
  "client_error (close_file s) = client_error s"
  "api_calls (close_file s) = api_calls s"
  "local_dirs (close_file s) = local_dirs s"
  "local_files (close_file s) = local_files s"
  "os_error (close_file s) = os_error s"
  "temp_names (close_file s) = temp_names s"
  "temp_dirs (close_file s) = temp_dirs s"
  "background_tasks (close_file s) = background_tasks s"
  "file_closed (close_file s) = Suc (file_closed s)"
  by (simp_all add: close_file_def)

subsection \<open>Reading a parameter\<close>

text \<open>
  Throughout, \<open>fst (get_ssm_parameter n d s)\<close> is the parameter as the handlers read it
  in state \<open>s\<close>: \<open>Inr (Some v)\<close> a value, \<open>Inr None\<close> not found, \<open>Inl e\<close> the exception of
  line 63. A read changes nothing but the list of calls, and does not depend on it.
\<close>

lemma get_ssm_parameter_state:
  "ssm_client s \<Longrightarrow> snd (get_ssm_parameter n d s) = record_call (GetParameter n d) s"
  by (simp add: get_ssm_parameter_def get_parameter_def split: option.splits)

lemma get_ssm_parameter_step:
  assumes "ssm_client s" and "fst (get_ssm_parameter n d s) = v"
  shows "get_ssm_parameter n d s = (v, record_call (GetParameter n d) s)"
  using assms get_ssm_parameter_state [of s n d] by (metis prod.collapse)

lemma get_ssm_parameter_after_call:
  "fst (get_ssm_parameter n d (record_call c s)) = fst (get_ssm_parameter n d s)"
  by (simp add: get_ssm_parameter_def get_parameter_def record_call_fields split: option.splits)

lemma get_ssm_parameter_value:
  "ssm_client s \<Longrightarrow>
   fst (get_ssm_parameter n d s) = Inr (Some v) \<longleftrightarrow>
     client_error s (GetParameter n d) = None \<and> ssm_parameters s n = Some v"
  by (auto simp: get_ssm_parameter_def get_parameter_def split: option.splits)

lemma get_ssm_parameter_same:
  "ssm_client s' = ssm_client s \<Longrightarrow>
   client_error s' (GetParameter n d) = client_error s (GetParameter n d) \<Longrightarrow>
   ssm_parameters s' n = ssm_parameters s n \<Longrightarrow>
   fst (get_ssm_parameter n d s') = fst (get_ssm_parameter n d s)"
  by (simp add: get_ssm_parameter_def get_parameter_def split: option.splits)

lemma read_password_then_lock:
  assumes "ssm_client s"
    and "fst (get_ssm_parameter p True s) = Inr (Some password)"
    and "fst (get_ssm_parameter l False s) = v"
  shows "get_ssm_parameter p True s = (Inr (Some password), record_call (GetParameter p True) s)"
    and "get_ssm_parameter l False (record_call (GetParameter p True) s) =
           (v, record_call (GetParameter l False) (record_call (GetParameter p True) s))"
proof -
  show "get_ssm_parameter p True s = (Inr (Some password), record_call (GetParameter p True) s)"
    using assms(1,2) by (rule get_ssm_parameter_step)
  show "get_ssm_parameter l False (record_call (GetParameter p True) s) =
           (v, record_call (GetParameter l False) (record_call (GetParameter p True) s))"
    using assms(1,3)
    by (intro get_ssm_parameter_step) (simp_all add: record_call_fields get_ssm_parameter_after_call)
qed

lemma read_three:
  assumes "ssm_client s"
    and "fst (get_ssm_parameter f False s) = w"
  shows "get_ssm_parameter f False
           (record_call (GetParameter l False) (record_call (GetParameter p True) s)) =
           (w, record_call (GetParameter f False)
                 (record_call (GetParameter l False) (record_call (GetParameter p True) s)))"
  using assms
  by (intro get_ssm_parameter_step) (simp_all add: record_call_fields get_ssm_parameter_after_call)

subsection \<open>Writing a parameter and moving a blob\<close>

lemma set_ssm_parameter_written:
  "ssm_client s \<Longrightarrow> client_error s (PutParameter n v True) = None \<Longrightarrow>
   set_ssm_parameter n v True s =
     (Inr True,
      record_call (PutParameter n v True) (s\<lparr>ssm_parameters := (ssm_parameters s)(n \<mapsto> v)\<rparr>))"
  by (simp add: set_ssm_parameter_def put_parameter_def)

text \<open>
  With the client present, a failed write never comes back as \<^verbatim>\<open>False\<close>: line 84 raises.
\<close>

lemma set_ssm_parameter_raises:
  "ssm_client s \<Longrightarrow> client_error s (PutParameter n v True) = Some code \<Longrightarrow>
   set_ssm_parameter n v True s =
     (Inl (HTTPException 500 (''Error communicating with AWS SSM to set '' @ n)),
      record_call (PutParameter n v True) s)"
  by (simp add: set_ssm_parameter_def put_parameter_def)

lemma upload_fileobj_stored:
  "client_error s (UploadFileobj b bucket key) = None \<Longrightarrow>
   upload_fileobj b bucket key s =
     (Inr (),
      record_call (UploadFileobj b bucket key)
        (s\<lparr>s3_objects := (s3_objects s)((bucket, key) \<mapsto> b)\<rparr>))"
  by (simp add: upload_fileobj_def)

lemma upload_fileobj_raises:
  "client_error s (UploadFileobj b bucket key) = Some code \<Longrightarrow>
   upload_fileobj b bucket key s = (Inl code, record_call (UploadFileobj b bucket key) s)"
  by (simp add: upload_fileobj_def)

subsection \<open>The local file system\<close>

lemma split_slash_plain:
  "CHR ''/'' \<notin> set name \<Longrightarrow> split_slash name = [name]"
  by (induction name) auto

lemma os_path_join_plain:
  "CHR ''/'' \<notin> set name \<Longrightarrow> os_path_join d name = (d, name)"
  by (cases name) (auto simp: os_path_join_def)

text \<open>A name without a slash, other than the two dot names, is looked up in the directory itself.\<close>

lemma locate_plain:
  assumes "is_dir s d" and "CHR ''/'' \<notin> set name"
    and "name \<noteq> []" and "name \<noteq> ''.''" and "name \<noteq> ''..''"
  shows "locate s (d, name) = Some (d @ [name])"
proof -
  have "locate s (d, name) = resolve s d [name]"
    using assms(2) by (simp add: locate_def split_slash_plain)
  also have "\<dots> = resolve s (d @ [name]) []"
    using assms(1,3,4,5) by (subst resolve.simps) simp
  finally show ?thesis
    by simp
qed

lemma is_dir_listed:
  "is_dir s q \<longleftrightarrow> q = [] \<or> (\<exists>e\<in>set (local_dirs s). take (length q) e = q)"
  by (simp add: is_dir_def list_ex_iff)

lemma is_dir_same:
  "local_dirs s' = local_dirs s \<Longrightarrow> is_dir s' q = is_dir s q"
  by (simp add: is_dir_def)

lemma resolve_same:
  assumes "local_dirs s' = local_dirs s"
  shows "resolve s' cur cs = resolve s cur cs"
proof (induction cs arbitrary: cur)
  case Nil
  show ?case by simp
next
  case (Cons c cs)
  have "is_dir s' cur = is_dir s cur"
    using assms by (rule is_dir_same)
  then show ?case
    by (simp add: Cons.IH)
qed

lemma locate_same:
  assumes "local_dirs s' = local_dirs s"
  shows "locate s' p = locate s p"
  by (simp add: locate_def resolve_same [OF assms])

lemma take_below:
  assumes "take (Suc (length d)) e = d @ [x]"
  shows "take (length d) e = d"
proof -
  have "take (length d) e = take (length d) (take (Suc (length d)) e)"
    by (simp add: take_take min_def)
  also have "\<dots> = take (length d) (d @ [x])"
    by (simp only: assms)
  also have "\<dots> = d"
    by simp
  finally show ?thesis .
qed

lemma take_longer:
  "take (Suc (length d)) d \<noteq> d @ [x]"
proof
  assume "take (Suc (length d)) d = d @ [x]"
  then have "length (take (Suc (length d)) d) = length (d @ [x])"
    by (simp only:)
  then show False
    by simp
qed

text \<open>A directory that has just been created where nothing was is a directory with nothing in it.\<close>

lemma is_dir_created:
  "is_dir (s\<lparr>local_dirs := d # local_dirs s, temp_dirs := t\<rparr>) d"
  by (simp add: is_dir_def)

lemma not_is_dir_below_created:
  assumes "\<not> is_dir s d"
  shows "\<not> is_dir (s\<lparr>local_dirs := d # local_dirs s, temp_dirs := t\<rparr>) (d @ [name])"
proof
  assume "is_dir (s\<lparr>local_dirs := d # local_dirs s, temp_dirs := t\<rparr>) (d @ [name])"
  then obtain e where e: "e = d \<or> e \<in> set (local_dirs s)"
      and t: "take (length (d @ [name])) e = d @ [name]"
    unfolding is_dir_listed by auto
  have t': "take (Suc (length d)) e = d @ [name]"
    using t by (simp only: length_append_singleton)
  have "e \<noteq> d"
  proof
    assume "e = d"
    then have "take (Suc (length d)) d = d @ [name]"
      using t' by blast
    then show False
      by (rule notE [OF take_longer])
  qed
  then have "e \<in> set (local_dirs s)"
    using e by blast
  moreover have "take (length d) e = d"
    using t' by (rule take_below)
  ultimately have "is_dir s d"
    unfolding is_dir_listed by blast
  then show False
    using assms by blast
qed

lemma TemporaryDirectory_creates:
  assumes "fst (TemporaryDirectory s) = Inr d"
  shows "TemporaryDirectory s =
           (Inr d, s\<lparr>local_dirs := d # local_dirs s, temp_dirs := temp_dirs s @ [d]\<rparr>)"
    and "\<not> is_dir s d" and "os_error s d = None"
proof -
  obtain c where c: "find (\<lambda>d. \<not> is_dir s d \<and> local_files s d = None) (temp_names s) = Some c"
    using assms by (cases "find (\<lambda>d. \<not> is_dir s d \<and> local_files s d = None) (temp_names s)")
      (simp_all add: TemporaryDirectory_def)
  have parent: "is_dir s (butlast c)"
    using assms c by (simp add: TemporaryDirectory_def split: if_splits)
  have free: "os_error s c = None"
    using assms c parent by (cases "os_error s c") (simp_all add: TemporaryDirectory_def)
  have "c = d"
    using assms c parent free by (simp add: TemporaryDirectory_def)
  then show "TemporaryDirectory s =
           (Inr d, s\<lparr>local_dirs := d # local_dirs s, temp_dirs := temp_dirs s @ [d]\<rparr>)"
    and "os_error s d = None"
    using c parent free by (simp_all add: TemporaryDirectory_def)
  show "\<not> is_dir s d"
    using c \<open>c = d\<close> by (auto simp: find_Some_iff)
qed

lemma TemporaryDirectory_same:
  assumes "local_dirs s' = local_dirs s" and "local_files s' = local_files s"
    and "temp_names s' = temp_names s" and "os_error s' = os_error s"
  shows "fst (TemporaryDirectory s') = fst (TemporaryDirectory s)"
  using assms by (simp add: TemporaryDirectory_def is_dir_def split: option.splits)

lemma TemporaryDirectory_keeps:
  "s3_client (snd (TemporaryDirectory s)) = s3_client s"
  "ssm_client (snd (TemporaryDirectory s)) = ssm_client s"
  "client_error (snd (TemporaryDirectory s)) = client_error s"
  "ssm_parameters (snd (TemporaryDirectory s)) = ssm_parameters s"
  "s3_objects (snd (TemporaryDirectory s)) = s3_objects s"
  by (simp_all add: TemporaryDirectory_def split: option.splits)

subsection \<open>Fetching a blob\<close>

lemma download_file_staged:
  assumes "client_error s (DownloadFile bucket key) = None"
    and "s3_objects s (bucket, key) = Some b"
    and "locate s p = Some q" and "\<not> is_dir s q" and "os_error s q = None"
  shows "download_file bucket key p s =
           (Inr (), (record_call (DownloadFile bucket key) s)\<lparr>local_files := (local_files s)(q \<mapsto> b)\<rparr>)"
proof -
  let ?r = "record_call (DownloadFile bucket key) s"
  have same: "local_dirs ?r = local_dirs s"
    by (simp add: record_call_fields)
  have "locate ?r p = Some q" "\<not> is_dir ?r q"
    using assms(3,4) by (simp_all add: locate_same [OF same] is_dir_same [OF same])
  then show ?thesis
    using assms(1,2,5) by (simp add: download_file_def write_file_def record_call_fields)
qed

lemma download_file_keeps:
  "s3_client (snd (download_file bucket key p s)) = s3_client s"
  "ssm_client (snd (download_file bucket key p s)) = ssm_client s"
  "client_error (snd (download_file bucket key p s)) = client_error s"
  "ssm_parameters (snd (download_file bucket key p s)) = ssm_parameters s"
  "s3_objects (snd (download_file bucket key p s)) = s3_objects s"
  by (simp_all add: download_file_def write_file_def record_call_fields split: option.splits)

section \<open>Runs of the two handlers\<close>

subsection \<open>Refusals\<close>

lemma get_file_wrong_password:
  assumes "s3_client s" and "ssm_client s"
    and "fst (get_ssm_parameter (SSM_PASSWORD_PARAMETER_NAME cfg) True s) = Inr stored"
    and "stored \<noteq> Some password"
  shows "get_file cfg who_are_you password s =
           (Inl (HTTPException 403 ''Provided password not valid''),
            record_call (GetParameter (SSM_PASSWORD_PARAMETER_NAME cfg) True) s)"
proof -
  have "get_ssm_parameter (SSM_PASSWORD_PARAMETER_NAME cfg) True s =
          (Inr stored, record_call (GetParameter (SSM_PASSWORD_PARAMETER_NAME cfg) True) s)"
    using assms(2,3) by (rule get_ssm_parameter_step)
  then show ?thesis
    using assms(1,2,4) by (simp add: get_file_def)
qed

lemma upload_file_wrong_password:
  assumes "s3_client s" and "ssm_client s"
    and "fst (get_ssm_parameter (SSM_PASSWORD_PARAMETER_NAME cfg) True s) = Inr stored"
    and "stored \<noteq> Some password"
  shows "upload_file cfg who_are_you password file s =
           (Inl (HTTPException 403 ''Provided password not valid''),
            record_call (GetParameter (SSM_PASSWORD_PARAMETER_NAME cfg) True) s)"
proof -
  have "get_ssm_parameter (SSM_PASSWORD_PARAMETER_NAME cfg) True s =
          (Inr stored, record_call (GetParameter (SSM_PASSWORD_PARAMETER_NAME cfg) True) s)"
    using assms(2,3) by (rule get_ssm_parameter_step)
  then show ?thesis
    using assms(1,2,4) by (simp add: upload_file_def)
qed

lemma get_file_locked:
  assumes "s3_client s" and "ssm_client s"
    and "fst (get_ssm_parameter (SSM_PASSWORD_PARAMETER_NAME cfg) True s) = Inr (Some password)"
    and "fst (get_ssm_parameter (SSM_PARAMETER_NAME cfg) False s) = Inr lock"
    and "lock \<noteq> Some LOCK_VALUE_UNLOCKED"
  shows "get_file cfg who_are_you password s =
           (Inl (HTTPException 409 (''Cannot download as save is locked by '' @ format_value lock)),
            record_call (GetParameter (SSM_PARAMETER_NAME cfg) False)
              (record_call (GetParameter (SSM_PASSWORD_PARAMETER_NAME cfg) True) s))"
  using assms(1,2,5) read_password_then_lock [OF assms(2,3,4)]
  by (simp add: get_file_def)

lemma upload_file_unlocked:
  assumes "s3_client s" and "ssm_client s"
    and "fst (get_ssm_parameter (SSM_PASSWORD_PARAMETER_NAME cfg) True s) = Inr (Some password)"
    and "filename file = Some name" and "name \<noteq> []"
    and "fst (get_ssm_parameter (SSM_PARAMETER_NAME cfg) False s) = Inr (Some LOCK_VALUE_UNLOCKED)"
  shows "upload_file cfg who_are_you password file s =
           (Inl (HTTPException 409
              ''Cannot upload: API lock is 'unlocked', indicating a file may already be present and downloadable.''),
            close_file (record_call (GetParameter (SSM_PARAMETER_NAME cfg) False)
              (record_call (GetParameter (SSM_PASSWORD_PARAMETER_NAME cfg) True) s)))"
  using assms(1,2,4,5) read_password_then_lock [OF assms(2,3,6)]
  by (simp add: upload_file_def)

lemma get_file_untracked:
  assumes "s3_client s" and "ssm_client s"
    and "fst (get_ssm_parameter (SSM_PASSWORD_PARAMETER_NAME cfg) True s) = Inr (Some password)"
    and "fst (get_ssm_parameter (SSM_PARAMETER_NAME cfg) False s) = Inr (Some LOCK_VALUE_UNLOCKED)"
    and "fst (get_ssm_parameter (SSM_FILENAME_PARAMETER_NAME cfg) False s) = Inr tracked"
    and "tracked = None \<or> tracked = Some [] \<or> tracked = Some ''init''"
  shows "get_file cfg who_are_you password s =
           (Inl (HTTPException 404 ''No valid save filename found to download.''),
            record_call (GetParameter (SSM_FILENAME_PARAMETER_NAME cfg) False)
              (record_call (GetParameter (SSM_PARAMETER_NAME cfg) False)
                 (record_call (GetParameter (SSM_PASSWORD_PARAMETER_NAME cfg) True) s)))"
  using assms(1,2,6) read_password_then_lock [OF assms(2,3,4)] read_three [OF assms(2,5)]
  by (auto simp add: get_file_def)

subsection \<open>The upload that returns\<close>

lemma upload_file_succeeds:
  assumes "s3_client s" and "ssm_client s"
    and "fst (get_ssm_parameter (SSM_PASSWORD_PARAMETER_NAME cfg) True s) = Inr (Some password)"
    and "filename file = Some name" and "name \<noteq> []"
    and "fst (get_ssm_parameter (SSM_PARAMETER_NAME cfg) False s) = Inr lock"
    and "lock \<noteq> Some LOCK_VALUE_UNLOCKED"
    and "client_error s (UploadFileobj (content file) (S3_BUCKET_NAME cfg) name) = None"
    and "client_error s (PutParameter (SSM_FILENAME_PARAMETER_NAME cfg) name True) = None"
    and "client_error s (PutParameter (SSM_PARAMETER_NAME cfg) LOCK_VALUE_UNLOCKED True) = None"
  shows "upload_file cfg who_are_you password file s =
     (Inr (Message (''File '' @ quoted name @ '' uploaded successfully by ''
                      @ quoted who_are_you @ ''.'')),
      close_file
        (record_call (PutParameter (SSM_PARAMETER_NAME cfg) LOCK_VALUE_UNLOCKED True)
          (record_call (PutParameter (SSM_FILENAME_PARAMETER_NAME cfg) name True)
            (record_call (UploadFileobj (content file) (S3_BUCKET_NAME cfg) name)
              (record_call (GetParameter (SSM_PARAMETER_NAME cfg) False)
                (record_call (GetParameter (SSM_PASSWORD_PARAMETER_NAME cfg) True)
                  (s\<lparr>s3_objects := (s3_objects s)((S3_BUCKET_NAME cfg, name) \<mapsto> content file),
                     ssm_parameters := (ssm_parameters s)
                       (SSM_FILENAME_PARAMETER_NAME cfg \<mapsto> name,
                        SSM_PARAMETER_NAME cfg \<mapsto> LOCK_VALUE_UNLOCKED)\<rparr>)))))))"
  using assms(1,2,4,5,7,8,9,10) read_password_then_lock [OF assms(2,3,6)]
  by (simp add: upload_file_def upload_fileobj_stored set_ssm_parameter_written
      record_call_fields record_call_def close_file_def)

text \<open>
  Conversely, an upload returns a response only when every check passed and none of its
  three writes raised.
\<close>

lemma upload_file_returns:
  assumes ok: "fst (upload_file cfg who_are_you password file s) = Inr r"
  shows "s3_client s \<and> ssm_client s
     \<and> fst (get_ssm_parameter (SSM_PASSWORD_PARAMETER_NAME cfg) True s) = Inr (Some password)
     \<and> (\<exists>name. filename file = Some name \<and> name \<noteq> []
          \<and> client_error s (UploadFileobj (content file) (S3_BUCKET_NAME cfg) name) = None
          \<and> client_error s (PutParameter (SSM_FILENAME_PARAMETER_NAME cfg) name True) = None)
     \<and> (\<exists>lock. fst (get_ssm_parameter (SSM_PARAMETER_NAME cfg) False s) = Inr lock
          \<and> lock \<noteq> Some LOCK_VALUE_UNLOCKED)
     \<and> client_error s (PutParameter (SSM_PARAMETER_NAME cfg) LOCK_VALUE_UNLOCKED True) = None"
proof -
  let ?P = "SSM_PASSWORD_PARAMETER_NAME cfg" and ?L = "SSM_PARAMETER_NAME cfg"
  let ?F = "SSM_FILENAME_PARAMETER_NAME cfg"
  have clients: "s3_client s" "ssm_client s"
    using ok by (auto simp: upload_file_def split: if_splits)
  let ?s1 = "record_call (GetParameter ?P True) s"
  let ?s2 = "record_call (GetParameter ?L False) ?s1"
  have r1: "get_ssm_parameter ?P True s = (fst (get_ssm_parameter ?P True s), ?s1)"
    using clients(2) by (intro get_ssm_parameter_step) simp_all
  have pw: "fst (get_ssm_parameter ?P True s) = Inr (Some password)"
  proof (cases "fst (get_ssm_parameter ?P True s)")
    case (Inl e)
    then have "get_ssm_parameter ?P True s = (Inl e, ?s1)" using r1 by simp
    then show ?thesis using ok clients by (simp add: upload_file_def)
  next
    case (Inr v)
    then have "get_ssm_parameter ?P True s = (Inr v, ?s1)" using r1 by simp
    then show ?thesis using ok clients Inr by (simp add: upload_file_def split: if_splits)
  qed
  then have p1: "get_ssm_parameter ?P True s = (Inr (Some password), ?s1)"
    using r1 by simp
  obtain name where name: "filename file = Some name" "name \<noteq> []"
    using ok clients p1 by (auto simp: upload_file_def split: option.splits if_splits)
  have r2: "get_ssm_parameter ?L False ?s1 = (fst (get_ssm_parameter ?L False s), ?s2)"
    using clients(2)
    by (intro get_ssm_parameter_step) (simp_all add: record_call_fields get_ssm_parameter_after_call)
  obtain lock where lock: "fst (get_ssm_parameter ?L False s) = Inr lock"
    using ok clients p1 name r2
    by (cases "fst (get_ssm_parameter ?L False s)") (auto simp: upload_file_def)
  then have p2: "get_ssm_parameter ?L False ?s1 = (Inr lock, ?s2)"
    using r2 by simp
  have locked: "lock \<noteq> Some LOCK_VALUE_UNLOCKED"
    using ok clients p1 name p2 by (auto simp: upload_file_def)
  have blob: "client_error s (UploadFileobj (content file) (S3_BUCKET_NAME cfg) name) = None"
  proof (cases "client_error s (UploadFileobj (content file) (S3_BUCKET_NAME cfg) name)")
    case (Some code)
    then show ?thesis
      using ok clients p1 name p2 locked
      by (simp add: upload_file_def upload_fileobj_raises record_call_fields)
  qed simp
  have track: "client_error s (PutParameter ?F name True) = None"
  proof (cases "client_error s (PutParameter ?F name True)")
    case (Some code)
    then show ?thesis
      using ok clients p1 name p2 locked blob
      by (simp add: upload_file_def upload_fileobj_stored set_ssm_parameter_raises record_call_fields)
  qed simp
  have reset: "client_error s (PutParameter ?L LOCK_VALUE_UNLOCKED True) = None"
  proof (cases "client_error s (PutParameter ?L LOCK_VALUE_UNLOCKED True)")
    case (Some code)
    then show ?thesis
      using ok clients p1 name p2 locked blob track
      by (simp add: upload_file_def upload_fileobj_stored set_ssm_parameter_raises
          set_ssm_parameter_written record_call_fields)
  qed simp
  show ?thesis
    using clients pw name lock locked blob track reset by blast
qed

subsection \<open>The download that returns\<close>

text \<open>
  A download returns a response only when the caller was authorized and the Lock read
  \<^verbatim>\<open>unlocked\<close>; afterwards the Lock holds the caller's name and every other parameter
  its old value.
\<close>

lemma get_file_returns:
  assumes ok: "fst (get_file cfg who_are_you password s) = Inr r"
  shows "s3_client s \<and> ssm_client s
     \<and> fst (get_ssm_parameter (SSM_PASSWORD_PARAMETER_NAME cfg) True s) = Inr (Some password)
     \<and> fst (get_ssm_parameter (SSM_PARAMETER_NAME cfg) False s) = Inr (Some LOCK_VALUE_UNLOCKED)
     \<and> s3_client (snd (get_file cfg who_are_you password s))
     \<and> ssm_client (snd (get_file cfg who_are_you password s))
     \<and> client_error (snd (get_file cfg who_are_you password s)) = client_error s
     \<and> ssm_parameters (snd (get_file cfg who_are_you password s)) =
         (ssm_parameters s)(SSM_PARAMETER_NAME cfg \<mapsto> who_are_you)"
proof -
  let ?P = "SSM_PASSWORD_PARAMETER_NAME cfg" and ?L = "SSM_PARAMETER_NAME cfg"
  let ?F = "SSM_FILENAME_PARAMETER_NAME cfg" and ?B = "S3_BUCKET_NAME cfg"
  have clients: "s3_client s" "ssm_client s"
    using ok by (auto simp: get_file_def split: if_splits)
  let ?s1 = "record_call (GetParameter ?P True) s"
  let ?s2 = "record_call (GetParameter ?L False) ?s1"
  let ?s3 = "record_call (GetParameter ?F False) ?s2"
  have r1: "get_ssm_parameter ?P True s = (fst (get_ssm_parameter ?P True s), ?s1)"
    using clients(2) by (intro get_ssm_parameter_step) simp_all
  have pw: "fst (get_ssm_parameter ?P True s) = Inr (Some password)"
  proof (cases "fst (get_ssm_parameter ?P True s)")
    case (Inl e)
    then have "get_ssm_parameter ?P True s = (Inl e, ?s1)" using r1 by simp
    then show ?thesis using ok clients by (simp add: get_file_def)
  next
    case (Inr v)
    then have "get_ssm_parameter ?P True s = (Inr v, ?s1)" using r1 by simp
    then show ?thesis using ok clients Inr by (simp add: get_file_def split: if_splits)
  qed
  have r2: "get_ssm_parameter ?L False ?s1 = (fst (get_ssm_parameter ?L False s), ?s2)"
    using clients(2)
    by (intro get_ssm_parameter_step) (simp_all add: record_call_fields get_ssm_parameter_after_call)
  have p1: "get_ssm_parameter ?P True s = (Inr (Some password), ?s1)"
    using r1 pw by simp
  have lock: "fst (get_ssm_parameter ?L False s) = Inr (Some LOCK_VALUE_UNLOCKED)"
  proof (cases "fst (get_ssm_parameter ?L False s)")
    case (Inl e)
    then show ?thesis using ok clients p1 r2 by (simp add: get_file_def)
  next
    case (Inr v)
    then show ?thesis using ok clients p1 r2 by (simp add: get_file_def split: if_splits)
  qed
  have p2: "get_ssm_parameter ?L False ?s1 = (Inr (Some LOCK_VALUE_UNLOCKED), ?s2)"
    using r2 lock by simp
  have r3: "get_ssm_parameter ?F False ?s2 = (fst (get_ssm_parameter ?F False s), ?s3)"
    using clients(2)
    by (intro get_ssm_parameter_step) (simp_all add: record_call_fields get_ssm_parameter_after_call)
  obtain name where tracked: "fst (get_ssm_parameter ?F False s) = Inr (Some name)"
      and name: "name \<noteq> []" "name \<noteq> ''init''"
    using ok clients p1 p2 r3
    by (cases "fst (get_ssm_parameter ?F False s)")
       (auto simp: get_file_def split: option.splits if_splits)
  have p3: "get_ssm_parameter ?F False ?s2 = (Inr (Some name), ?s3)"
    using r3 tracked by simp
  obtain rt s4 where t: "TemporaryDirectory ?s3 = (rt, s4)"
    by (cases "TemporaryDirectory ?s3")
  have s4: "s4 = snd (TemporaryDirectory ?s3)"
    using t by simp
  obtain d where d: "rt = Inr d"
    using ok clients p1 p2 p3 name t by (cases rt) (simp_all add: get_file_def)
  obtain rd s5 where f: "download_file ?B name (os_path_join d name) s4 = (rd, s5)"
    by (cases "download_file ?B name (os_path_join d name) s4")
  have s5: "s5 = snd (download_file ?B name (os_path_join d name) s4)"
    using f by simp
  have fetched: "rd = Inr ()"
  proof (cases rd)
    case (Inl e)
    then show ?thesis
      using ok clients p1 p2 p3 name t d f
      by (cases e) (simp_all add: get_file_def split: if_splits)
  qed simp
  have e5: "client_error s5 = client_error s" "ssm_client s5" "s3_client s5"
    "ssm_parameters s5 = ssm_parameters s"
    using clients
    by (simp_all add: s5 s4 download_file_keeps TemporaryDirectory_keeps record_call_fields)
  have put: "client_error s (PutParameter ?L who_are_you True) = None"
  proof (cases "client_error s (PutParameter ?L who_are_you True)")
    case (Some code)
    then have "set_ssm_parameter ?L who_are_you True s5 =
        (Inl (HTTPException 500 (''Error communicating with AWS SSM to set '' @ ?L)),
         record_call (PutParameter ?L who_are_you True) s5)"
      using e5 by (intro set_ssm_parameter_raises) simp_all
    then show ?thesis
      using ok clients p1 p2 p3 name t d f fetched by (simp add: get_file_def)
  qed simp
  have w: "set_ssm_parameter ?L who_are_you True s5 =
      (Inr True, record_call (PutParameter ?L who_are_you True)
         (s5\<lparr>ssm_parameters := (ssm_parameters s5)(?L \<mapsto> who_are_you)\<rparr>))"
    using e5 put by (intro set_ssm_parameter_written) simp_all
  have run: "snd (get_file cfg who_are_you password s) =
      add_task (CleanTempDir d) (record_call (PutParameter ?L who_are_you True)
         (s5\<lparr>ssm_parameters := (ssm_parameters s5)(?L \<mapsto> who_are_you)\<rparr>))"
    using clients p1 p2 p3 name t d f fetched w by (simp add: get_file_def)
  show ?thesis
    using clients pw lock e5
    by (simp add: run add_task_def record_call_fields)
qed

text \<open>
  So after a download by \<open>holder\<close> has returned, the next download, by anyone, is
  refused with 409 naming \<open>holder\<close>, provided that \<open>holder\<close> is not the word \<^verbatim>\<open>unlocked\<close>
  itself and that the password is kept under a key other than the Lock's.
\<close>

lemma download_then_download_conflict:
  assumes first: "fst (get_file cfg holder password s) = Inr r"
    and "holder \<noteq> LOCK_VALUE_UNLOCKED"
    and "SSM_PASSWORD_PARAMETER_NAME cfg \<noteq> SSM_PARAMETER_NAME cfg"
  shows "fst (get_file cfg who_are_you password (snd (get_file cfg holder password s))) =
           Inl (HTTPException 409 (''Cannot download as save is locked by '' @ holder))"
proof -
  define s' where "s' = snd (get_file cfg holder password s)"
  note g = get_file_returns [OF first]
  have before: "ssm_client s"
    "fst (get_ssm_parameter (SSM_PASSWORD_PARAMETER_NAME cfg) True s) = Inr (Some password)"
    "fst (get_ssm_parameter (SSM_PARAMETER_NAME cfg) False s) = Inr (Some LOCK_VALUE_UNLOCKED)"
    using g by simp_all
  have stored: "client_error s (GetParameter (SSM_PASSWORD_PARAMETER_NAME cfg) True) = None"
    "ssm_parameters s (SSM_PASSWORD_PARAMETER_NAME cfg) = Some password"
    "client_error s (GetParameter (SSM_PARAMETER_NAME cfg) False) = None"
    using before(2,3) by (simp_all add: get_ssm_parameter_value [OF before(1)])
  have f: "s3_client s'" "ssm_client s'"
    "client_error s' (GetParameter (SSM_PASSWORD_PARAMETER_NAME cfg) True) = None"
    "ssm_parameters s' (SSM_PASSWORD_PARAMETER_NAME cfg) = Some password"
    "client_error s' (GetParameter (SSM_PARAMETER_NAME cfg) False) = None"
    "ssm_parameters s' (SSM_PARAMETER_NAME cfg) = Some holder"
    using g stored assms(3) unfolding s'_def by simp_all
  have pw: "fst (get_ssm_parameter (SSM_PASSWORD_PARAMETER_NAME cfg) True s') = Inr (Some password)"
    using f by (simp add: get_ssm_parameter_value)
  have lock: "fst (get_ssm_parameter (SSM_PARAMETER_NAME cfg) False s') = Inr (Some holder)"
    using f by (simp add: get_ssm_parameter_value)
  have "fst (get_file cfg who_are_you password s') =
           Inl (HTTPException 409 (''Cannot download as save is locked by '' @ holder))"
    using f(1,2) assms(2) read_password_then_lock [OF f(2) pw lock]
    by (simp add: get_file_def)
  then show ?thesis
    unfolding s'_def .
qed

section \<open>The claims\<close>

subsection \<open>Round trip\<close>

text \<open>
  Claim C1, as stated: after a successful authorized upload of bytes \<open>B\<close> under a
  non-empty filename \<open>F\<close> to a locked gateway, an authorized download made while the Lock
  reads \<^verbatim>\<open>unlocked\<close> returns \<open>B\<close> with filename \<open>F\<close>. The statement fails when \<open>F\<close> is
  the sentinel \<^verbatim>\<open>init\<close>: the upload of \<^verbatim>\<open>x,y,z\<close> under that name returns its
  acknowledgment, the Lock reads \<^verbatim>\<open>unlocked\<close>, the blob is in the bucket, and the
  download is refused with 404 by the guard of line 114.
\<close>

theorem round_trip_fails_for_init:
  "fst (upload_file example_config ''bob'' ''secret'' init_xyz
          (gateway locked_params report_objects no_errors)) =
     Inr (Message ''File 'init' uploaded successfully by 'bob'.'')
   \<and> fst (get_ssm_parameter ''lock'' False
        (snd (upload_file example_config ''bob'' ''secret'' init_xyz
               (gateway locked_params report_objects no_errors)))) = Inr (Some ''unlocked'')
   \<and> s3_objects
        (snd (upload_file example_config ''bob'' ''secret'' init_xyz
               (gateway locked_params report_objects no_errors))) (''saves'', ''init'') = Some xyz
   \<and> fst (get_file example_config ''carol'' ''secret''
        (snd (upload_file example_config ''bob'' ''secret'' init_xyz
               (gateway locked_params report_objects no_errors)))) =
     Inl (HTTPException 404 ''No valid save filename found to download.'')"
  by (simp add: upload_file_def get_file_def example_defs run_defs)

text \<open>
  A filename with a directory part fails as well, in another way: the blob cannot be
  staged below a directory that does not exist, the \<^verbatim>\<open>FileNotFoundError\<close> is not caught,
  and the download ends without a response.
\<close>

lemma round_trip_fails_for_nested_name:
  "fst (upload_file example_config ''bob'' ''secret'' nested_xyz
          (gateway locked_params report_objects no_errors)) =
     Inr (Message ''File 'dir/report.csv' uploaded successfully by 'bob'.'')
   \<and> fst (get_file example_config ''carol'' ''secret''
        (snd (upload_file example_config ''bob'' ''secret'' nested_xyz
               (gateway locked_params report_objects no_errors)))) =
     Inl (OSError ''FileNotFoundError'')"
  by (simp add: upload_file_def get_file_def example_defs run_defs)

text \<open>
  Claim C1, amended: let an upload of \<open>content file\<close> under the filename \<open>name\<close> return
  a response (so the caller was authorized, the gateway was locked, the name is not
  empty, and the blob write, the Tracked Filename write and the Lock reset all
  succeeded). Let \<open>name\<close> be a plain file name (no slash in it, and neither \<^verbatim>\<open>.\<close> nor
  \<^verbatim>\<open>..\<close>) other than \<^verbatim>\<open>init\<close>, and let the Tracked Filename be kept under a key other
  than the Lock's. Then a download on the resulting state that is authorized, made while
  the Lock reads \<^verbatim>\<open>unlocked\<close>, whose calls to the two stores (the Tracked Filename read,
  the blob fetch, the Lock write) do not raise, and for which the temporary directory
  \<open>d\<close> can be created and the file staged in it, returns a \<^verbatim>\<open>FileResponse\<close> with
  filename \<open>name\<close> whose body is exactly \<open>content file\<close>.
\<close>

theorem round_trip:
  assumes up: "fst (upload_file cfg uploader password file s) = Inr r"
    and name: "filename file = Some name" "name \<noteq> ''init''"
    and plain: "CHR ''/'' \<notin> set name" "name \<noteq> ''.''" "name \<noteq> ''..''"
    and keys: "SSM_FILENAME_PARAMETER_NAME cfg \<noteq> SSM_PARAMETER_NAME cfg"
    and auth: "fst (get_ssm_parameter (SSM_PASSWORD_PARAMETER_NAME cfg) True
                 (snd (upload_file cfg uploader password file s))) = Inr (Some password')"
    and unlocked: "fst (get_ssm_parameter (SSM_PARAMETER_NAME cfg) False
                 (snd (upload_file cfg uploader password file s))) = Inr (Some LOCK_VALUE_UNLOCKED)"
    and calls: "client_error s (GetParameter (SSM_FILENAME_PARAMETER_NAME cfg) False) = None"
      "client_error s (DownloadFile (S3_BUCKET_NAME cfg) name) = None"
      "client_error s (PutParameter (SSM_PARAMETER_NAME cfg) downloader True) = None"
    and local: "fst (TemporaryDirectory s) = Inr d" "os_error s (d @ [name]) = None"
  shows "fst (get_file cfg downloader password' (snd (upload_file cfg uploader password file s))) =
           Inr (FileResponse (d, name) name ''application/octet-stream'')
         \<and> response_body
             (snd (get_file cfg downloader password' (snd (upload_file cfg uploader password file s))))
             (FileResponse (d, name) name ''application/octet-stream'') =
           Some (content file)"
proof -
  let ?P = "SSM_PASSWORD_PARAMETER_NAME cfg" and ?L = "SSM_PARAMETER_NAME cfg"
  let ?F = "SSM_FILENAME_PARAMETER_NAME cfg" and ?B = "S3_BUCKET_NAME cfg"
  let ?u = "snd (upload_file cfg uploader password file s)"
  from upload_file_returns [OF up] name(1)
  obtain lock where pre: "s3_client s" "ssm_client s"
      "fst (get_ssm_parameter ?P True s) = Inr (Some password)" "name \<noteq> []"
      "client_error s (UploadFileobj (content file) ?B name) = None"
      "client_error s (PutParameter ?F name True) = None"
      "fst (get_ssm_parameter ?L False s) = Inr lock" "lock \<noteq> Some LOCK_VALUE_UNLOCKED"
      "client_error s (PutParameter ?L LOCK_VALUE_UNLOCKED True) = None"
    by auto
  note run = upload_file_succeeds [OF pre(1,2,3) name(1) pre(4,7,8,5,6,9), of uploader]
  have u: "s3_client ?u" "ssm_client ?u" "client_error ?u = client_error s"
    "s3_objects ?u (?B, name) = Some (content file)"
    "ssm_parameters ?u ?F = Some name"
    using pre(1,2) keys by (simp_all add: run close_file_fields record_call_fields)
  have fs: "local_dirs ?u = local_dirs s" "local_files ?u = local_files s"
    "temp_names ?u = temp_names s" "os_error ?u = os_error s"
    by (simp_all add: run close_file_fields record_call_fields)
  have tracked: "fst (get_ssm_parameter ?F False ?u) = Inr (Some name)"
    using u(2,3,5) calls(1) by (simp add: get_ssm_parameter_value)
  let ?s3 = "record_call (GetParameter ?F False)
               (record_call (GetParameter ?L False) (record_call (GetParameter ?P True) ?u))"
  note reads = read_password_then_lock [OF u(2) auth unlocked] read_three [OF u(2) tracked]
  have "fst (TemporaryDirectory ?s3) = fst (TemporaryDirectory s)"
    by (rule TemporaryDirectory_same) (simp_all add: fs record_call_fields)
  then have made: "fst (TemporaryDirectory ?s3) = Inr d"
    using local(1) by simp
  let ?s4 = "?s3\<lparr>local_dirs := d # local_dirs ?s3, temp_dirs := temp_dirs ?s3 @ [d]\<rparr>"
  have t: "TemporaryDirectory ?s3 = (Inr d, ?s4)"
    using made by (rule TemporaryDirectory_creates)
  have new: "\<not> is_dir ?s3 d"
    using made by (rule TemporaryDirectory_creates)
  have joined: "os_path_join d name = (d, name)"
    using plain(1) by (rule os_path_join_plain)
  have "is_dir ?s4 d"
    by (rule is_dir_created)
  then have where_to: "locate ?s4 (d, name) = Some (d @ [name])"
    using plain pre(4) by (intro locate_plain)
  have empty: "\<not> is_dir ?s4 (d @ [name])"
    using new by (rule not_is_dir_below_created)
  have room: "os_error ?s4 (d @ [name]) = None"
    using local(2) by (simp add: fs record_call_fields)
  have there: "client_error ?s4 (DownloadFile ?B name) = None"
    "s3_objects ?s4 (?B, name) = Some (content file)"
    using calls(2) u(3,4) by (simp_all add: record_call_fields)
  let ?s5 = "(record_call (DownloadFile ?B name) ?s4)
               \<lparr>local_files := (local_files ?s4)(d @ [name] \<mapsto> content file)\<rparr>"
  have fetched: "download_file ?B name (d, name) ?s4 = (Inr (), ?s5)"
    using there where_to empty room by (rule download_file_staged)
  have "ssm_client ?s5" "client_error ?s5 (PutParameter ?L downloader True) = None"
    using u(2,3) calls(3) by (simp_all add: record_call_fields)
  then have locked: "set_ssm_parameter ?L downloader True ?s5 =
      (Inr True, record_call (PutParameter ?L downloader True)
         (?s5\<lparr>ssm_parameters := (ssm_parameters ?s5)(?L \<mapsto> downloader)\<rparr>))"
    by (rule set_ssm_parameter_written)
  let ?s6 = "add_task (CleanTempDir d) (record_call (PutParameter ?L downloader True)
         (?s5\<lparr>ssm_parameters := (ssm_parameters ?s5)(?L \<mapsto> downloader)\<rparr>))"
  have result: "get_file cfg downloader password' ?u =
      (Inr (FileResponse (d, name) name ''application/octet-stream''), ?s6)"
    using u(1,2) name(2) pre(4) reads t joined fetched locked
    by (simp add: get_file_def)
  have same: "local_dirs ?s6 = local_dirs ?s4"
    by (simp add: add_task_def record_call_fields)
  have "locate ?s6 (d, name) = locate ?s4 (d, name)"
    using same by (rule locate_same)
  then have "locate ?s6 (d, name) = Some (d @ [name])"
    using where_to by (simp only:)
  moreover have "local_files ?s6 (d @ [name]) = Some (content file)"
    by (simp add: add_task_def record_call_fields)
  ultimately show ?thesis
    by (simp add: result)
qed

text \<open>
  The scenario of the specification: with the Lock held by \<^verbatim>\<open>alice\<close>, \<^verbatim>\<open>bob\<close> uploads
  \<^verbatim>\<open>x,y,z\<close> as \<^verbatim>\<open>report.csv\<close> and \<^verbatim>\<open>carol\<close> then downloads exactly those bytes.
\<close>

theorem round_trip_witness:
  "fst (get_file example_config ''carol'' ''secret''
          (snd (upload_file example_config ''bob'' ''secret'' report_xyz
                 (gateway locked_params report_objects no_errors)))) =
     Inr (FileResponse ([''tmp'', ''tmpk3v9x2ab''], ''report.csv'') ''report.csv''
           ''application/octet-stream'')
   \<and> response_body
        (snd (get_file example_config ''carol'' ''secret''
          (snd (upload_file example_config ''bob'' ''secret'' report_xyz
                 (gateway locked_params report_objects no_errors)))))
        (FileResponse ([''tmp'', ''tmpk3v9x2ab''], ''report.csv'') ''report.csv''
           ''application/octet-stream'') = Some xyz"
proof -
  let ?s = "gateway locked_params report_objects no_errors"
  have up: "fst (upload_file example_config ''bob'' ''secret'' report_xyz ?s) =
              Inr (Message ''File 'report.csv' uploaded successfully by 'bob'.'')"
    by (simp add: upload_file_def example_defs run_defs)
  have auth: "fst (get_ssm_parameter (SSM_PASSWORD_PARAMETER_NAME example_config) True
                 (snd (upload_file example_config ''bob'' ''secret'' report_xyz ?s))) =
              Inr (Some ''secret'')"
    by (simp add: upload_file_def example_defs run_defs)
  have unl: "fst (get_ssm_parameter (SSM_PARAMETER_NAME example_config) False
                 (snd (upload_file example_config ''bob'' ''secret'' report_xyz ?s))) =
              Inr (Some LOCK_VALUE_UNLOCKED)"
    by (simp add: upload_file_def example_defs run_defs)
  have made: "fst (TemporaryDirectory ?s) = Inr [''tmp'', ''tmpk3v9x2ab'']"
    by (simp add: example_defs run_defs)
  show ?thesis
    using round_trip [OF up _ _ _ _ _ _ auth unl _ _ _ made,
        of "''report.csv''" "''carol''"]
    by (simp add: example_defs)
qed

subsection \<open>Conflicts\<close>

text \<open>
  Claim C2: a download requested while the Lock reads anything other than \<^verbatim>\<open>unlocked\<close>
  (a holder's name, or nothing at all) raises 409 with a message that ends with the
  Lock value read, and leaves the parameter store and the bucket as they were; the only
  calls made are the two reads. The request is taken to have passed the earlier checks:
  both clients exist and the password matches.
\<close>

theorem download_refused_while_locked:
  assumes "s3_client s" and "ssm_client s"
    and "fst (get_ssm_parameter (SSM_PASSWORD_PARAMETER_NAME cfg) True s) = Inr (Some password)"
    and "fst (get_ssm_parameter (SSM_PARAMETER_NAME cfg) False s) = Inr lock"
    and "lock \<noteq> Some LOCK_VALUE_UNLOCKED"
  shows "fst (get_file cfg who_are_you password s) =
           Inl (HTTPException 409 (''Cannot download as save is locked by '' @ format_value lock))
       \<and> ssm_parameters (snd (get_file cfg who_are_you password s)) = ssm_parameters s
       \<and> s3_objects (snd (get_file cfg who_are_you password s)) = s3_objects s
       \<and> api_calls (snd (get_file cfg who_are_you password s)) =
           api_calls s @ [GetParameter (SSM_PASSWORD_PARAMETER_NAME cfg) True,
                          GetParameter (SSM_PARAMETER_NAME cfg) False]"
  using get_file_locked [OF assms] by (simp add: record_call_fields)

text \<open>
  After \<^verbatim>\<open>alice\<close> has downloaded \<^verbatim>\<open>report.csv\<close>, the download of \<^verbatim>\<open>bob\<close> is refused with
  her name as the holder.
\<close>

theorem download_refused_while_locked_witness:
  "fst (get_file example_config ''alice'' ''secret''
          (gateway unlocked_params report_objects no_errors)) =
     Inr (FileResponse ([''tmp'', ''tmpk3v9x2ab''], ''report.csv'') ''report.csv''
           ''application/octet-stream'')
   \<and> fst (get_file example_config ''bob'' ''secret''
        (snd (get_file example_config ''alice'' ''secret''
                (gateway unlocked_params report_objects no_errors)))) =
     Inl (HTTPException 409 ''Cannot download as save is locked by alice'')
   \<and> ssm_parameters (snd (get_file example_config ''bob'' ''secret''
        (snd (get_file example_config ''alice'' ''secret''
                (gateway unlocked_params report_objects no_errors))))) =
     unlocked_params(''lock'' \<mapsto> ''alice'')"
proof -
  let ?s = "snd (get_file example_config ''alice'' ''secret''
                   (gateway unlocked_params report_objects no_errors))"
  have first: "fst (get_file example_config ''alice'' ''secret''
          (gateway unlocked_params report_objects no_errors)) =
     Inr (FileResponse ([''tmp'', ''tmpk3v9x2ab''], ''report.csv'') ''report.csv''
           ''application/octet-stream'')"
    by (simp add: get_file_def example_defs run_defs)
  have clients: "s3_client ?s" "ssm_client ?s"
    by (simp_all add: get_file_def example_defs run_defs)
  have pw: "fst (get_ssm_parameter (SSM_PASSWORD_PARAMETER_NAME example_config) True ?s) =
              Inr (Some ''secret'')"
    by (simp add: get_file_def example_defs run_defs)
  have lock: "fst (get_ssm_parameter (SSM_PARAMETER_NAME example_config) False ?s) =
              Inr (Some ''alice'')"
    by (simp add: get_file_def example_defs run_defs)
  have held: "Some ''alice'' \<noteq> Some LOCK_VALUE_UNLOCKED"
    by (simp add: LOCK_VALUE_UNLOCKED_def)
  have stored: "ssm_parameters ?s = unlocked_params(''lock'' \<mapsto> ''alice'')"
    by (simp add: get_file_def example_defs run_defs)
  show ?thesis
    using download_refused_while_locked [OF clients pw lock held, of "''bob''"] first stored
    by simp
qed

text \<open>
  Claim C3: an upload requested while the Lock reads \<^verbatim>\<open>unlocked\<close> raises 409 and changes
  neither the parameter store (Tracked Filename, Lock) nor the bucket; the only calls
  made are the two reads. The request is taken to have passed the earlier checks: both
  clients exist, the password matches and the filename is not empty.
\<close>

theorem upload_refused_while_unlocked:
  assumes "s3_client s" and "ssm_client s"
    and "fst (get_ssm_parameter (SSM_PASSWORD_PARAMETER_NAME cfg) True s) = Inr (Some password)"
    and "filename file = Some name" and "name \<noteq> []"
    and "fst (get_ssm_parameter (SSM_PARAMETER_NAME cfg) False s) = Inr (Some LOCK_VALUE_UNLOCKED)"
  shows "fst (upload_file cfg who_are_you password file s) =
           Inl (HTTPException 409
             ''Cannot upload: API lock is 'unlocked', indicating a file may already be present and downloadable.'')
       \<and> ssm_parameters (snd (upload_file cfg who_are_you password file s)) = ssm_parameters s
       \<and> s3_objects (snd (upload_file cfg who_are_you password file s)) = s3_objects s
       \<and> api_calls (snd (upload_file cfg who_are_you password file s)) =
           api_calls s @ [GetParameter (SSM_PASSWORD_PARAMETER_NAME cfg) True,
                          GetParameter (SSM_PARAMETER_NAME cfg) False]"
  using upload_file_unlocked [OF assms] by (simp add: record_call_fields close_file_fields)

theorem upload_refused_while_unlocked_witness:
  "fst (upload_file example_config ''bob'' ''secret'' report_xyz
          (gateway unlocked_params report_objects no_errors)) =
     Inl (HTTPException 409
       ''Cannot upload: API lock is 'unlocked', indicating a file may already be present and downloadable.'')
   \<and> ssm_parameters (snd (upload_file example_config ''bob'' ''secret'' report_xyz
          (gateway unlocked_params report_objects no_errors))) = unlocked_params
   \<and> s3_objects (snd (upload_file example_config ''bob'' ''secret'' report_xyz
          (gateway unlocked_params report_objects no_errors))) = report_objects
   \<and> api_calls (snd (upload_file example_config ''bob'' ''secret'' report_xyz
          (gateway unlocked_params report_objects no_errors))) =
       [GetParameter ''password'' True, GetParameter ''lock'' False]"
  using upload_refused_while_unlocked
    [where s = "gateway unlocked_params report_objects no_errors"
       and cfg = example_config and password = "''secret''" and name = "''report.csv''"
       and who_are_you = "''bob''" and ?file = report_xyz]
  by (simp add: example_defs run_defs)

subsection \<open>The sentinel\<close>

text \<open>
  Claim C4: a download requested while the Lock reads \<^verbatim>\<open>unlocked\<close>, with the Tracked
  Filename missing, empty or equal to \<^verbatim>\<open>init\<close>, raises 404 and changes neither the
  parameter store (so the Lock stays \<^verbatim>\<open>unlocked\<close>) nor the bucket; the only calls made
  are the three reads, and no temporary directory is created.
\<close>

theorem download_without_tracked_file:
  assumes "s3_client s" and "ssm_client s"
    and "fst (get_ssm_parameter (SSM_PASSWORD_PARAMETER_NAME cfg) True s) = Inr (Some password)"
    and "fst (get_ssm_parameter (SSM_PARAMETER_NAME cfg) False s) = Inr (Some LOCK_VALUE_UNLOCKED)"
    and "fst (get_ssm_parameter (SSM_FILENAME_PARAMETER_NAME cfg) False s) = Inr tracked"
    and "tracked = None \<or> tracked = Some [] \<or> tracked = Some ''init''"
  shows "fst (get_file cfg who_are_you password s) =
           Inl (HTTPException 404 ''No valid save filename found to download.'')
       \<and> ssm_parameters (snd (get_file cfg who_are_you password s)) = ssm_parameters s
       \<and> s3_objects (snd (get_file cfg who_are_you password s)) = s3_objects s
       \<and> temp_dirs (snd (get_file cfg who_are_you password s)) = temp_dirs s
       \<and> api_calls (snd (get_file cfg who_are_you password s)) =
           api_calls s @ [GetParameter (SSM_PASSWORD_PARAMETER_NAME cfg) True,
                          GetParameter (SSM_PARAMETER_NAME cfg) False,
                          GetParameter (SSM_FILENAME_PARAMETER_NAME cfg) False]"
  using get_file_untracked [OF assms] by (simp add: record_call_fields)

theorem download_without_tracked_file_witness:
  "fst (get_file example_config ''alice'' ''secret''
          (gateway init_params report_objects no_errors)) =
     Inl (HTTPException 404 ''No valid save filename found to download.'')
   \<and> ssm_parameters (snd (get_file example_config ''alice'' ''secret''
          (gateway init_params report_objects no_errors))) = init_params
   \<and> s3_objects (snd (get_file example_config ''alice'' ''secret''
          (gateway init_params report_objects no_errors))) = report_objects
   \<and> temp_dirs (snd (get_file example_config ''alice'' ''secret''
          (gateway init_params report_objects no_errors))) = []
   \<and> api_calls (snd (get_file example_config ''alice'' ''secret''
          (gateway init_params report_objects no_errors))) =
       [GetParameter ''password'' True, GetParameter ''lock'' False,
        GetParameter ''filename'' False]"
  using download_without_tracked_file
    [where s = "gateway init_params report_objects no_errors"
       and cfg = example_config and password = "''secret''" and tracked = "Some ''init''"
       and who_are_you = "''alice''"]
  by (simp add: example_defs run_defs)

subsection \<open>Authorization\<close>

text \<open>
  Claim C5: with both clients present, a request whose password differs from the stored
  secret raises 403, in the download and in the upload alike and whatever the Lock and
  the Tracked Filename hold; neither store changes, and the only call made is the read
  of the password, so the check comes before the Lock is read.
\<close>

theorem wrong_password_rejected:
  assumes "s3_client s" and "ssm_client s"
    and "fst (get_ssm_parameter (SSM_PASSWORD_PARAMETER_NAME cfg) True s) = Inr stored"
    and "stored \<noteq> Some password"
  shows "fst (get_file cfg who_are_you password s) =
           Inl (HTTPException 403 ''Provided password not valid'')
       \<and> fst (upload_file cfg who_are_you password file s) =
           Inl (HTTPException 403 ''Provided password not valid'')
       \<and> ssm_parameters (snd (get_file cfg who_are_you password s)) = ssm_parameters s
       \<and> ssm_parameters (snd (upload_file cfg who_are_you password file s)) = ssm_parameters s
       \<and> s3_objects (snd (get_file cfg who_are_you password s)) = s3_objects s
       \<and> s3_objects (snd (upload_file cfg who_are_you password file s)) = s3_objects s
       \<and> api_calls (snd (get_file cfg who_are_you password s)) =
           api_calls s @ [GetParameter (SSM_PASSWORD_PARAMETER_NAME cfg) True]
       \<and> api_calls (snd (upload_file cfg who_are_you password file s)) =
           api_calls s @ [GetParameter (SSM_PASSWORD_PARAMETER_NAME cfg) True]"
  using get_file_wrong_password [OF assms] upload_file_wrong_password [OF assms]
  by (simp add: record_call_fields)

theorem wrong_password_rejected_witness:
  "fst (get_file example_config ''alice'' ''guess''
          (gateway unlocked_params report_objects no_errors)) =
     Inl (HTTPException 403 ''Provided password not valid'')
   \<and> fst (upload_file example_config ''alice'' ''guess'' report_xyz
          (gateway unlocked_params report_objects no_errors)) =
     Inl (HTTPException 403 ''Provided password not valid'')
   \<and> fst (get_file example_config ''alice'' ''guess''
          (gateway locked_params report_objects no_errors)) =
     Inl (HTTPException 403 ''Provided password not valid'')
   \<and> fst (upload_file example_config ''alice'' ''guess'' report_xyz
          (gateway locked_params report_objects no_errors)) =
     Inl (HTTPException 403 ''Provided password not valid'')
   \<and> api_calls (snd (upload_file example_config ''alice'' ''guess'' report_xyz
          (gateway locked_params report_objects no_errors))) = [GetParameter ''password'' True]"
  using wrong_password_rejected
    [where s = "gateway unlocked_params report_objects no_errors"
       and cfg = example_config and password = "''guess''" and stored = "Some ''secret''"
       and who_are_you = "''alice''" and ?file = report_xyz]
    wrong_password_rejected
    [where s = "gateway locked_params report_objects no_errors"
       and cfg = example_config and password = "''guess''" and stored = "Some ''secret''"
       and who_are_you = "''alice''" and ?file = report_xyz]
  by (simp add: example_defs run_defs)

text \<open>
  Claim C10: when the read of the Password parameter finds nothing, every request, with
  any password, raises 403 in both handlers, since \<^verbatim>\<open>None\<close> differs from every string.
\<close>

theorem absent_password_rejects_all:
  assumes "s3_client s" and "ssm_client s"
    and "fst (get_ssm_parameter (SSM_PASSWORD_PARAMETER_NAME cfg) True s) = Inr None"
  shows "fst (get_file cfg who_are_you password s) =
           Inl (HTTPException 403 ''Provided password not valid'')
       \<and> fst (upload_file cfg who_are_you password file s) =
           Inl (HTTPException 403 ''Provided password not valid'')"
  using get_file_wrong_password [OF assms] upload_file_wrong_password [OF assms]
  by simp

theorem absent_password_rejects_all_witness:
  "fst (get_file example_config ''alice'' ''secret''
          (gateway no_password_params report_objects no_errors)) =
     Inl (HTTPException 403 ''Provided password not valid'')
   \<and> fst (upload_file example_config ''alice'' ''secret'' report_xyz
          (gateway no_password_params report_objects no_errors)) =
     Inl (HTTPException 403 ''Provided password not valid'')"
  using absent_password_rejects_all
    [where s = "gateway no_password_params report_objects no_errors"
       and cfg = example_config and password = "''secret''"
       and who_are_you = "''alice''" and ?file = report_xyz]
  by (simp add: example_defs run_defs)

subsection \<open>Partial failures of the upload\<close>

text \<open>
  Claim C6: in an upload that passed every check on a locked gateway, if the blob write
  succeeds and the write of the Tracked Filename raises, the request fails with status
  500 (the exception of \<^verbatim>\<open>set_ssm_parameter\<close>, line 84), the parameter store is
  unchanged, so the Lock reads what it read before and is not reset, the blob is in the
  bucket, and the write of the Lock is never attempted: the last call made is the failed
  write of the Tracked Filename.
\<close>

theorem tracking_write_failure:
  assumes "s3_client s" and "ssm_client s"
    and "fst (get_ssm_parameter (SSM_PASSWORD_PARAMETER_NAME cfg) True s) = Inr (Some password)"
    and "filename file = Some name" and "name \<noteq> []"
    and "fst (get_ssm_parameter (SSM_PARAMETER_NAME cfg) False s) = Inr lock"
    and "lock \<noteq> Some LOCK_VALUE_UNLOCKED"
    and "client_error s (UploadFileobj (content file) (S3_BUCKET_NAME cfg) name) = None"
    and "client_error s (PutParameter (SSM_FILENAME_PARAMETER_NAME cfg) name True) = Some code"
  shows "fst (upload_file cfg who_are_you password file s) =
           Inl (HTTPException 500
             (''Error communicating with AWS SSM to set '' @ SSM_FILENAME_PARAMETER_NAME cfg))
         \<and> ssm_parameters (snd (upload_file cfg who_are_you password file s)) = ssm_parameters s
         \<and> fst (get_ssm_parameter (SSM_PARAMETER_NAME cfg) False
                  (snd (upload_file cfg who_are_you password file s))) = Inr lock
         \<and> s3_objects (snd (upload_file cfg who_are_you password file s)) =
             (s3_objects s)((S3_BUCKET_NAME cfg, name) \<mapsto> content file)
         \<and> api_calls (snd (upload_file cfg who_are_you password file s)) =
             api_calls s @
               [GetParameter (SSM_PASSWORD_PARAMETER_NAME cfg) True,
                GetParameter (SSM_PARAMETER_NAME cfg) False,
                UploadFileobj (content file) (S3_BUCKET_NAME cfg) name,
                PutParameter (SSM_FILENAME_PARAMETER_NAME cfg) name True]"
proof -
  let ?s2 = "record_call (GetParameter (SSM_PARAMETER_NAME cfg) False)
               (record_call (GetParameter (SSM_PASSWORD_PARAMETER_NAME cfg) True) s)"
  let ?s4 = "record_call (PutParameter (SSM_FILENAME_PARAMETER_NAME cfg) name True)
               (record_call (UploadFileobj (content file) (S3_BUCKET_NAME cfg) name)
                  (?s2\<lparr>s3_objects := (s3_objects s)((S3_BUCKET_NAME cfg, name) \<mapsto> content file)\<rparr>))"
  have run: "upload_file cfg who_are_you password file s =
               (Inl (HTTPException 500
                  (''Error communicating with AWS SSM to set '' @ SSM_FILENAME_PARAMETER_NAME cfg)),
                close_file ?s4)"
    using assms(1,2,4,5,7,8,9) read_password_then_lock [OF assms(2,3,6)]
    by (simp add: upload_file_def upload_fileobj_stored set_ssm_parameter_raises record_call_fields)
  have lock: "fst (get_ssm_parameter (SSM_PARAMETER_NAME cfg) False (close_file ?s4)) =
                fst (get_ssm_parameter (SSM_PARAMETER_NAME cfg) False s)"
    by (rule get_ssm_parameter_same) (simp_all add: close_file_fields record_call_fields)
  show ?thesis
    using assms(6) lock by (simp add: run close_file_fields record_call_fields)
qed

theorem tracking_write_failure_witness:
  "fst (upload_file example_config ''bob'' ''secret'' report_xyz
          (gateway locked_params report_objects tracking_write_fails)) =
     Inl (HTTPException 500 ''Error communicating with AWS SSM to set filename'')
   \<and> ssm_parameters (snd (upload_file example_config ''bob'' ''secret'' report_xyz
          (gateway locked_params report_objects tracking_write_fails))) = locked_params
   \<and> fst (get_ssm_parameter ''lock'' False
        (snd (upload_file example_config ''bob'' ''secret'' report_xyz
          (gateway locked_params report_objects tracking_write_fails)))) = Inr (Some ''alice'')
   \<and> s3_objects (snd (upload_file example_config ''bob'' ''secret'' report_xyz
          (gateway locked_params report_objects tracking_write_fails))) =
       report_objects((''saves'', ''report.csv'') \<mapsto> xyz)
   \<and> api_calls (snd (upload_file example_config ''bob'' ''secret'' report_xyz
          (gateway locked_params report_objects tracking_write_fails))) =
       [GetParameter ''password'' True, GetParameter ''lock'' False,
        UploadFileobj xyz ''saves'' ''report.csv'', PutParameter ''filename'' ''report.csv'' True]"
  using tracking_write_failure
    [where s = "gateway locked_params report_objects tracking_write_fails"
       and cfg = example_config and password = "''secret''" and name = "''report.csv''"
       and lock = "Some ''alice''" and code = "''ThrottlingException''"
       and who_are_you = "''bob''" and ?file = report_xyz]
  by (simp add: example_defs run_defs)

text \<open>
  Claim C7, as stated: the final write of the Lock is best-effort, and the upload still
  returns its acknowledgment when that write fails. It does not: \<^verbatim>\<open>set_ssm_parameter\<close>
  raises on a failed write, and nothing around line 244 catches an \<^verbatim>\<open>HTTPException\<close>.
  With the blob write and the Tracked Filename write succeeding and only the Lock write
  raising, the upload of \<^verbatim>\<open>bob\<close> ends with status 500.
\<close>

theorem lock_reset_not_best_effort:
  "client_error (gateway locked_params report_objects lock_reset_fails)
     (UploadFileobj xyz ''saves'' ''report.csv'') = None
   \<and> client_error (gateway locked_params report_objects lock_reset_fails)
     (PutParameter ''filename'' ''report.csv'' True) = None
   \<and> client_error (gateway locked_params report_objects lock_reset_fails)
     (PutParameter ''lock'' ''unlocked'' True) = Some ''InternalServerError''
   \<and> fst (upload_file example_config ''bob'' ''secret'' report_xyz
        (gateway locked_params report_objects lock_reset_fails)) =
      Inl (HTTPException 500 ''Error communicating with AWS SSM to set lock'')
   \<and> fst (upload_file example_config ''bob'' ''secret'' report_xyz
        (gateway locked_params report_objects lock_reset_fails)) \<noteq>
      Inr (Message ''File 'report.csv' uploaded successfully by 'bob'.'')"
  by (simp add: upload_file_def example_defs run_defs)

text \<open>
  Claim C7, amended: in an upload that passed every check on a locked gateway, if the
  blob write and the Tracked Filename write succeed and the write of the Lock raises, the
  request fails with status 500 (the exception of \<^verbatim>\<open>set_ssm_parameter\<close>); the blob and
  the Tracked Filename have been written, and every other parameter keeps its value.
\<close>

theorem lock_reset_failure:
  assumes "s3_client s" and "ssm_client s"
    and "fst (get_ssm_parameter (SSM_PASSWORD_PARAMETER_NAME cfg) True s) = Inr (Some password)"
    and "filename file = Some name" and "name \<noteq> []"
    and "fst (get_ssm_parameter (SSM_PARAMETER_NAME cfg) False s) = Inr lock"
    and "lock \<noteq> Some LOCK_VALUE_UNLOCKED"
    and "client_error s (UploadFileobj (content file) (S3_BUCKET_NAME cfg) name) = None"
    and "client_error s (PutParameter (SSM_FILENAME_PARAMETER_NAME cfg) name True) = None"
    and "client_error s (PutParameter (SSM_PARAMETER_NAME cfg) LOCK_VALUE_UNLOCKED True) = Some code"
  shows "fst (upload_file cfg who_are_you password file s) =
           Inl (HTTPException 500
             (''Error communicating with AWS SSM to set '' @ SSM_PARAMETER_NAME cfg))
         \<and> ssm_parameters (snd (upload_file cfg who_are_you password file s)) =
             (ssm_parameters s)(SSM_FILENAME_PARAMETER_NAME cfg \<mapsto> name)
         \<and> s3_objects (snd (upload_file cfg who_are_you password file s)) =
             (s3_objects s)((S3_BUCKET_NAME cfg, name) \<mapsto> content file)
         \<and> api_calls (snd (upload_file cfg who_are_you password file s)) =
             api_calls s @
               [GetParameter (SSM_PASSWORD_PARAMETER_NAME cfg) True,
                GetParameter (SSM_PARAMETER_NAME cfg) False,
                UploadFileobj (content file) (S3_BUCKET_NAME cfg) name,
                PutParameter (SSM_FILENAME_PARAMETER_NAME cfg) name True,
                PutParameter (SSM_PARAMETER_NAME cfg) LOCK_VALUE_UNLOCKED True]"
  using assms(1,2,4,5,7,8,9,10) read_password_then_lock [OF assms(2,3,6)]
  by (simp add: upload_file_def upload_fileobj_stored set_ssm_parameter_raises
      set_ssm_parameter_written record_call_fields close_file_fields)

theorem lock_reset_failure_witness:
  "fst (upload_file example_config ''bob'' ''secret'' report_xyz
          (gateway locked_params report_objects lock_reset_fails)) =
     Inl (HTTPException 500 ''Error communicating with AWS SSM to set lock'')
   \<and> ssm_parameters (snd (upload_file example_config ''bob'' ''secret'' report_xyz
          (gateway locked_params report_objects lock_reset_fails))) =
       locked_params(''filename'' \<mapsto> ''report.csv'')
   \<and> s3_objects (snd (upload_file example_config ''bob'' ''secret'' report_xyz
          (gateway locked_params report_objects lock_reset_fails))) =
       report_objects((''saves'', ''report.csv'') \<mapsto> xyz)
   \<and> api_calls (snd (upload_file example_config ''bob'' ''secret'' report_xyz
          (gateway locked_params report_objects lock_reset_fails))) =
       [GetParameter ''password'' True, GetParameter ''lock'' False,
        UploadFileobj xyz ''saves'' ''report.csv'', PutParameter ''filename'' ''report.csv'' True,
        PutParameter ''lock'' ''unlocked'' True]"
  using lock_reset_failure
    [where s = "gateway locked_params report_objects lock_reset_fails"
       and cfg = example_config and password = "''secret''" and name = "''report.csv''"
       and lock = "Some ''alice''" and code = "''InternalServerError''"
       and who_are_you = "''bob''" and ?file = report_xyz]
  by (simp add: example_defs run_defs)

subsection \<open>The staging area of the download\<close>

text \<open>
  For a plain tracked name the blob is staged inside the temporary directory, and the
  directory goes away with everything in it on the exits below: through the scheduled
  task after a returned response, and through the finalizer of the
  \<^verbatim>\<open>TemporaryDirectory\<close> object after the exception of a failed Lock write, where no task
  has been scheduled.
\<close>

lemma staging_released_after_download:
  "fst (get_file example_config ''alice'' ''secret''
          (gateway unlocked_params report_objects no_errors)) =
     Inr (FileResponse ([''tmp'', ''tmpk3v9x2ab''], ''report.csv'') ''report.csv''
           ''application/octet-stream'')
   \<and> local_files (snd (get_file example_config ''alice'' ''secret''
          (gateway unlocked_params report_objects no_errors)))
        [''tmp'', ''tmpk3v9x2ab'', ''report.csv''] = Some abc
   \<and> background_tasks (snd (get_file example_config ''alice'' ''secret''
          (gateway unlocked_params report_objects no_errors))) =
       [CleanTempDir [''tmp'', ''tmpk3v9x2ab'']]
   \<and> local_dirs (finish_request (get_file example_config ''alice'' ''secret''
          (gateway unlocked_params report_objects no_errors))) = [[''tmp''], [''srv'']]
   \<and> local_files (finish_request (get_file example_config ''alice'' ''secret''
          (gateway unlocked_params report_objects no_errors)))
        [''tmp'', ''tmpk3v9x2ab'', ''report.csv''] = None"
  by (simp add: get_file_def example_defs run_defs finish_request_def finalize_temp_dirs_def
      run_background_tasks_def clean_temp_dir_def)

lemma staging_released_when_lock_write_raises:
  "fst (get_file example_config ''alice'' ''secret''
          (gateway unlocked_params report_objects lock_write_fails)) =
     Inl (HTTPException 500 ''Error communicating with AWS SSM to set lock'')
   \<and> local_files (snd (get_file example_config ''alice'' ''secret''
          (gateway unlocked_params report_objects lock_write_fails)))
        [''tmp'', ''tmpk3v9x2ab'', ''report.csv''] = Some abc
   \<and> background_tasks (snd (get_file example_config ''alice'' ''secret''
          (gateway unlocked_params report_objects lock_write_fails))) = []
   \<and> local_dirs (finish_request (get_file example_config ''alice'' ''secret''
          (gateway unlocked_params report_objects lock_write_fails))) = [[''tmp''], [''srv'']]
   \<and> local_files (finish_request (get_file example_config ''alice'' ''secret''
          (gateway unlocked_params report_objects lock_write_fails)))
        [''tmp'', ''tmpk3v9x2ab'', ''report.csv''] = None"
  by (simp add: get_file_def example_defs run_defs finish_request_def finalize_temp_dirs_def
      run_background_tasks_def clean_temp_dir_def)

text \<open>
  Claim C8 says that the staging area of a download is released on every exit from the
  blob fetch onward. The handler stages the blob at
  \<^verbatim>\<open>os.path.join(temp_dir.name, filename_to_download)\<close> and releases the temporary
  directory, so the release reaches the staged file only when that path lies inside the
  directory. With the Tracked Filename \<^verbatim>\<open>/srv/report.csv\<close> (left there by an upload under
  that filename) the join discards the directory: the blob is written to
  \<^verbatim>\<open>/srv/report.csv\<close>, the download returns it, the cleanup removes the empty temporary
  directory, and the staged file, which did not exist before the request, is still there
  when the request is over.
\<close>

theorem staged_file_outlives_request:
  "local_files (gateway srv_params srv_objects no_errors) [''srv'', ''report.csv''] = None
   \<and> fst (get_file example_config ''alice'' ''secret''
          (gateway srv_params srv_objects no_errors)) =
     Inr (FileResponse ([], ''/srv/report.csv'') ''/srv/report.csv''
           ''application/octet-stream'')
   \<and> response_body
        (snd (get_file example_config ''alice'' ''secret''
               (gateway srv_params srv_objects no_errors)))
        (FileResponse ([], ''/srv/report.csv'') ''/srv/report.csv''
           ''application/octet-stream'') = Some abc
   \<and> background_tasks (snd (get_file example_config ''alice'' ''secret''
          (gateway srv_params srv_objects no_errors))) =
       [CleanTempDir [''tmp'', ''tmpk3v9x2ab'']]
   \<and> local_dirs (finish_request (get_file example_config ''alice'' ''secret''
          (gateway srv_params srv_objects no_errors))) = [[''tmp''], [''srv'']]
   \<and> temp_dirs (finish_request (get_file example_config ''alice'' ''secret''
          (gateway srv_params srv_objects no_errors))) = []
   \<and> local_files (finish_request (get_file example_config ''alice'' ''secret''
          (gateway srv_params srv_objects no_errors))) [''srv'', ''report.csv''] = Some abc"
  by (simp add: get_file_def example_defs run_defs finish_request_def finalize_temp_dirs_def
      run_background_tasks_def clean_temp_dir_def)

text \<open>The request leaves behind a file that was not there before it.\<close>

theorem staged_file_outlives_request_witness:
  "local_files (finish_request (get_file example_config ''alice'' ''secret''
          (gateway srv_params srv_objects no_errors))) [''srv'', ''report.csv'']
   \<noteq> local_files (gateway srv_params srv_objects no_errors) [''srv'', ''report.csv'']"
  using staged_file_outlives_request by simp

text \<open>The same happens when the upload itself brought the absolute name.\<close>

lemma absolute_name_round_trip_leaves_file:
  "fst (upload_file example_config ''bob'' ''secret'' srv_xyz
          (gateway locked_params report_objects no_errors)) =
     Inr (Message ''File '/srv/report.csv' uploaded successfully by 'bob'.'')
   \<and> response_body
        (snd (get_file example_config ''carol'' ''secret''
          (snd (upload_file example_config ''bob'' ''secret'' srv_xyz
                 (gateway locked_params report_objects no_errors)))))
        (FileResponse ([], ''/srv/report.csv'') ''/srv/report.csv''
           ''application/octet-stream'') = Some xyz
   \<and> local_files (finish_request (get_file example_config ''carol'' ''secret''
          (snd (upload_file example_config ''bob'' ''secret'' srv_xyz
                 (gateway locked_params report_objects no_errors)))))
        [''srv'', ''report.csv''] = Some xyz"
  by (simp add: upload_file_def get_file_def example_defs run_defs finish_request_def
      finalize_temp_dirs_def run_background_tasks_def clean_temp_dir_def)

subsection \<open>A Lock that cannot be found\<close>

text \<open>
  Claim C9: when the Lock parameter is not in the store, it is not taken for
  \<^verbatim>\<open>unlocked\<close>. A download is refused with 409 (the holder printed as \<^verbatim>\<open>None\<close>). An
  upload is not refused with 409 and proceeds: with a filename that is not empty, its
  next call after the two reads is the blob write, and when that write, the Tracked
  Filename write and the Lock write do not raise, it returns its acknowledgment with
  the blob stored, the Tracked Filename set and the Lock created as \<^verbatim>\<open>unlocked\<close>. In
  every case it does what it would do with the Lock held by any \<open>holder\<close> other than
  \<^verbatim>\<open>unlocked\<close>: same result, same calls in the same order, same bucket afterwards.
\<close>

theorem missing_lock_counts_as_locked:
  assumes "s3_client s" and "ssm_client s"
    and pw: "fst (get_ssm_parameter (SSM_PASSWORD_PARAMETER_NAME cfg) True s) = Inr (Some password)"
    and absent: "ssm_parameters s (SSM_PARAMETER_NAME cfg) = None"
      "client_error s (GetParameter (SSM_PARAMETER_NAME cfg) False) = None"
    and holder: "holder \<noteq> LOCK_VALUE_UNLOCKED"
  shows "fst (get_file cfg who_are_you password s) =
           Inl (HTTPException 409 ''Cannot download as save is locked by None'')
     \<and> fst (upload_file cfg who_are_you password file s) \<noteq>
           Inl (HTTPException 409
             ''Cannot upload: API lock is 'unlocked', indicating a file may already be present and downloadable.'')
     \<and> fst (upload_file cfg who_are_you password file s) =
         fst (upload_file cfg who_are_you password file
                (s\<lparr>ssm_parameters := (ssm_parameters s)(SSM_PARAMETER_NAME cfg \<mapsto> holder)\<rparr>))
     \<and> s3_objects (snd (upload_file cfg who_are_you password file s)) =
         s3_objects (snd (upload_file cfg who_are_you password file
                (s\<lparr>ssm_parameters := (ssm_parameters s)(SSM_PARAMETER_NAME cfg \<mapsto> holder)\<rparr>)))
     \<and> api_calls (snd (upload_file cfg who_are_you password file s)) =
         api_calls (snd (upload_file cfg who_are_you password file
                (s\<lparr>ssm_parameters := (ssm_parameters s)(SSM_PARAMETER_NAME cfg \<mapsto> holder)\<rparr>)))
     \<and> (filename file = Some name \<and> name \<noteq> [] \<longrightarrow>
          take 3 (drop (length (api_calls s))
                    (api_calls (snd (upload_file cfg who_are_you password file s)))) =
            [GetParameter (SSM_PASSWORD_PARAMETER_NAME cfg) True,
             GetParameter (SSM_PARAMETER_NAME cfg) False,
             UploadFileobj (content file) (S3_BUCKET_NAME cfg) name])
     \<and> (filename file = Some name \<and> name \<noteq> []
          \<and> client_error s (UploadFileobj (content file) (S3_BUCKET_NAME cfg) name) = None
          \<and> client_error s (PutParameter (SSM_FILENAME_PARAMETER_NAME cfg) name True) = None
          \<and> client_error s (PutParameter (SSM_PARAMETER_NAME cfg) LOCK_VALUE_UNLOCKED True) = None
          \<longrightarrow>
          fst (upload_file cfg who_are_you password file s) =
            Inr (Message (''File '' @ quoted name @ '' uploaded successfully by ''
                            @ quoted who_are_you @ ''.''))
          \<and> s3_objects (snd (upload_file cfg who_are_you password file s)) =
              (s3_objects s)((S3_BUCKET_NAME cfg, name) \<mapsto> content file)
          \<and> ssm_parameters (snd (upload_file cfg who_are_you password file s)) =
              (ssm_parameters s)
                (SSM_FILENAME_PARAMETER_NAME cfg \<mapsto> name,
                 SSM_PARAMETER_NAME cfg \<mapsto> LOCK_VALUE_UNLOCKED))"
proof -
  let ?P = "SSM_PASSWORD_PARAMETER_NAME cfg" and ?L = "SSM_PARAMETER_NAME cfg"
  let ?t = "s\<lparr>ssm_parameters := (ssm_parameters s)(?L \<mapsto> holder)\<rparr>"
  have lock_s: "fst (get_ssm_parameter ?L False s) = Inr None"
    using assms(2) absent by (simp add: get_ssm_parameter_def get_parameter_def)
  have stored: "client_error s (GetParameter ?P True) = None" "ssm_parameters s ?P = Some password"
    using pw assms(2) by (simp_all add: get_ssm_parameter_value)
  then have "?P \<noteq> ?L"
    using absent(1) by auto
  then have pw_t: "fst (get_ssm_parameter ?P True ?t) = Inr (Some password)"
    using stored assms(2) by (simp add: get_ssm_parameter_value)
  have lock_t: "fst (get_ssm_parameter ?L False ?t) = Inr (Some holder)"
    using assms(2) absent(2) by (simp add: get_ssm_parameter_value)
  have t: "s3_client ?t" "ssm_client ?t"
    using assms(1,2) by simp_all
  note reads_s = read_password_then_lock [OF assms(2) pw lock_s]
  note reads_t = read_password_then_lock [OF t(2) pw_t lock_t]
  have down: "fst (get_file cfg who_are_you password s) =
           Inl (HTTPException 409 ''Cannot download as save is locked by None'')"
    using assms(1,2) reads_s by (simp add: get_file_def LOCK_VALUE_UNLOCKED_def)
  have up: "fst (upload_file cfg who_are_you password file s) \<noteq>
           Inl (HTTPException 409
             ''Cannot upload: API lock is 'unlocked', indicating a file may already be present and downloadable.'')"
    using assms(1,2) reads_s
    by (simp add: upload_file_def upload_fileobj_def set_ssm_parameter_def put_parameter_def
        record_call_fields split: option.splits)
  have same: "fst (upload_file cfg who_are_you password file s) =
         fst (upload_file cfg who_are_you password file ?t)
     \<and> s3_objects (snd (upload_file cfg who_are_you password file s)) =
         s3_objects (snd (upload_file cfg who_are_you password file ?t))
     \<and> api_calls (snd (upload_file cfg who_are_you password file s)) =
         api_calls (snd (upload_file cfg who_are_you password file ?t))"
    using assms(1,2) t reads_s reads_t holder
    by (simp add: upload_file_def upload_fileobj_def set_ssm_parameter_def put_parameter_def
        record_call_fields close_file_fields record_call_def split: option.splits)
  have attempted: "take 3 (drop (length (api_calls s))
                    (api_calls (snd (upload_file cfg who_are_you password file s)))) =
            [GetParameter ?P True, GetParameter ?L False,
             UploadFileobj (content file) (S3_BUCKET_NAME cfg) name]"
    if "filename file = Some name" "name \<noteq> []"
    using that assms(1,2) reads_s
    by (simp add: upload_file_def upload_fileobj_def set_ssm_parameter_def put_parameter_def
        record_call_fields close_file_fields record_call_def split: option.splits)
  have completed: "fst (upload_file cfg who_are_you password file s) =
            Inr (Message (''File '' @ quoted name @ '' uploaded successfully by ''
                            @ quoted who_are_you @ ''.''))
          \<and> s3_objects (snd (upload_file cfg who_are_you password file s)) =
              (s3_objects s)((S3_BUCKET_NAME cfg, name) \<mapsto> content file)
          \<and> ssm_parameters (snd (upload_file cfg who_are_you password file s)) =
              (ssm_parameters s)
                (SSM_FILENAME_PARAMETER_NAME cfg \<mapsto> name, ?L \<mapsto> LOCK_VALUE_UNLOCKED)"
    if "filename file = Some name" "name \<noteq> []"
      "client_error s (UploadFileobj (content file) (S3_BUCKET_NAME cfg) name) = None"
      "client_error s (PutParameter (SSM_FILENAME_PARAMETER_NAME cfg) name True) = None"
      "client_error s (PutParameter ?L LOCK_VALUE_UNLOCKED True) = None"
  proof -
    have "None \<noteq> Some LOCK_VALUE_UNLOCKED"
      by simp
    note run = upload_file_succeeds [OF assms(1,2) pw that(1,2) lock_s this that(3,4,5)]
    show ?thesis
      by (simp add: run close_file_fields record_call_fields)
  qed
  show ?thesis
    using down up same attempted completed by blast
qed

text \<open>
  Without a Lock parameter the download of \<^verbatim>\<open>bob\<close> is refused, and his upload goes
  through: the acknowledgment comes back, the blob is in the bucket, the Tracked Filename
  is set and the Lock now exists and reads \<^verbatim>\<open>unlocked\<close>.
\<close>

theorem missing_lock_counts_as_locked_witness:
  "fst (get_file example_config ''bob'' ''secret''
          (gateway no_lock_params report_objects no_errors)) =
     Inl (HTTPException 409 ''Cannot download as save is locked by None'')
   \<and> fst (upload_file example_config ''bob'' ''secret'' report_xyz
          (gateway no_lock_params report_objects no_errors)) =
     Inr (Message ''File 'report.csv' uploaded successfully by 'bob'.'')
   \<and> s3_objects (snd (upload_file example_config ''bob'' ''secret'' report_xyz
          (gateway no_lock_params report_objects no_errors))) (''saves'', ''report.csv'') =
     Some xyz
   \<and> ssm_parameters (snd (upload_file example_config ''bob'' ''secret'' report_xyz
          (gateway no_lock_params report_objects no_errors))) ''filename'' = Some ''report.csv''
   \<and> ssm_parameters (snd (upload_file example_config ''bob'' ''secret'' report_xyz
          (gateway no_lock_params report_objects no_errors))) ''lock'' = Some ''unlocked''
   \<and> take 3 (api_calls (snd (upload_file example_config ''bob'' ''secret'' report_xyz
          (gateway no_lock_params report_objects no_errors)))) =
     [GetParameter ''password'' True, GetParameter ''lock'' False,
      UploadFileobj xyz ''saves'' ''report.csv'']"
proof -
  let ?s = "gateway no_lock_params report_objects no_errors"
  have clients: "s3_client ?s" "ssm_client ?s"
    by (simp_all add: gateway_def)
  have pw: "fst (get_ssm_parameter (SSM_PASSWORD_PARAMETER_NAME example_config) True ?s) =
              Inr (Some ''secret'')"
    by (simp add: example_defs run_defs)
  have absent: "ssm_parameters ?s (SSM_PARAMETER_NAME example_config) = None"
    "client_error ?s (GetParameter (SSM_PARAMETER_NAME example_config) False) = None"
    by (simp_all add: example_defs)
  have holder: "''alice'' \<noteq> LOCK_VALUE_UNLOCKED"
    by (simp add: LOCK_VALUE_UNLOCKED_def)
  have given: "filename report_xyz = Some ''report.csv''" "''report.csv'' \<noteq> []"
    "client_error ?s (UploadFileobj (content report_xyz) (S3_BUCKET_NAME example_config)
       ''report.csv'') = None"
    "client_error ?s (PutParameter (SSM_FILENAME_PARAMETER_NAME example_config)
       ''report.csv'' True) = None"
    "client_error ?s (PutParameter (SSM_PARAMETER_NAME example_config)
       LOCK_VALUE_UNLOCKED True) = None"
    by (simp_all add: example_defs)
  have start: "api_calls ?s = []"
    by (simp add: gateway_def)
  note t = missing_lock_counts_as_locked [OF clients pw absent holder,
      where who_are_you = "''bob''" and ?file = report_xyz and name = "''report.csv''"]
  have down: "fst (get_file example_config ''bob'' ''secret'' ?s) =
     Inl (HTTPException 409 ''Cannot download as save is locked by None'')"
    using t by blast
  have calls: "take 3 (drop (length (api_calls ?s))
      (api_calls (snd (upload_file example_config ''bob'' ''secret'' report_xyz ?s)))) =
      [GetParameter (SSM_PASSWORD_PARAMETER_NAME example_config) True,
       GetParameter (SSM_PARAMETER_NAME example_config) False,
       UploadFileobj (content report_xyz) (S3_BUCKET_NAME example_config) ''report.csv'']"
    using t given(1,2) by blast
  have up: "fst (upload_file example_config ''bob'' ''secret'' report_xyz ?s) =
            Inr (Message (''File '' @ quoted ''report.csv'' @ '' uploaded successfully by ''
                            @ quoted ''bob'' @ ''.''))"
    and blob: "s3_objects (snd (upload_file example_config ''bob'' ''secret'' report_xyz ?s)) =
              (s3_objects ?s)((S3_BUCKET_NAME example_config, ''report.csv'') \<mapsto>
                 content report_xyz)"
    and params: "ssm_parameters (snd (upload_file example_config ''bob'' ''secret'' report_xyz ?s)) =
              (ssm_parameters ?s)
                (SSM_FILENAME_PARAMETER_NAME example_config \<mapsto> ''report.csv'',
                 SSM_PARAMETER_NAME example_config \<mapsto> LOCK_VALUE_UNLOCKED)"
    using t given by blast+
  show ?thesis
    using down up blob params calls [unfolded start]
    by (simp add: example_config_def report_xyz_def quoted_def LOCK_VALUE_UNLOCKED_def)
qed

end
